theory Spec2Isabelle
  imports Main
begin

section \<open>Strings as the code has them\<close>

text \<open>
  A Rust \<open>String\<close> or \<open>&str\<close> is a vector of bytes holding valid UTF-8, and \<open>len()\<close>
  is its length in bytes. The model keeps that representation: a string is a
  \<^typ>\<open>string\<close>, whose characters are bytes, and \<open>len()\<close> is \<^const>\<open>length\<close>.
  The standard-library functions the server calls are written out below over bytes;
  on valid UTF-8 they agree with the library's character-wise definitions, because no
  pattern used here can start inside a multi-byte character.
\<close>

abbreviation CR :: char where "CR \<equiv> CHR 0x0D"
abbreviation LF :: char where "LF \<equiv> CHR 0x0A"
abbreviation NUL :: char where "NUL \<equiv> CHR 0x00"

text \<open>\<open>str::starts_with\<close>, \<open>str::ends_with\<close> and \<open>str::contains\<close> with a string pattern.\<close>

definition starts_with :: "string \<Rightarrow> string \<Rightarrow> bool" where
  "starts_with s pat = (take (length pat) s = pat)"

definition ends_with :: "string \<Rightarrow> string \<Rightarrow> bool" where
  "ends_with s pat = (length pat \<le> length s \<and> drop (length s - length pat) s = pat)"

fun contains :: "string \<Rightarrow> string \<Rightarrow> bool" where
  "contains [] pat = (pat = [])"
| "contains (c # cs) pat = (starts_with (c # cs) pat \<or> contains cs pat)"

text \<open>
  \<open>str::split\<close> with a one-character pattern (\<open>split("/")\<close>, \<open>split(":")\<close>): the
  pieces between the separators, empty pieces included; there is always at least one
  piece.
\<close>

fun split_str :: "string \<Rightarrow> char \<Rightarrow> string list" where
  "split_str [] sep = [[]]"
| "split_str (c # cs) sep =
     (if c = sep then [] # split_str cs sep
      else (case split_str cs sep of
              p # ps \<Rightarrow> (c # p) # ps
            | [] \<Rightarrow> [[c]]))"

text \<open>
  \<open>str::lines\<close>: the text is cut after every line feed; a piece that ended in a line
  feed loses it, and then loses one carriage return before it. A last piece without a
  line feed is kept as it is, and an empty last piece is not a line.
\<close>

definition strip_cr :: "string \<Rightarrow> string" where
  "strip_cr s = (if s \<noteq> [] \<and> last s = CR then butlast s else s)"

fun lines_from :: "string \<Rightarrow> string \<Rightarrow> string list" where
  "lines_from cur [] = (if cur = [] then [] else [cur])"
| "lines_from cur (c # cs) =
     (if c = LF then strip_cr cur # lines_from [] cs
      else lines_from (cur @ [c]) cs)"

definition lines :: "string \<Rightarrow> string list" where
  "lines s = lines_from [] s"

text \<open>
  \<open>char::is_whitespace\<close> is the Unicode property White_Space. These are its code
  points in UTF-8: U+0009 to U+000D, U+0020, U+0085, U+00A0, U+1680, U+2000 to U+200A,
  U+2028, U+2029, U+202F, U+205F and U+3000. None is a prefix of another.
\<close>

definition white_space :: "string list" where
  "white_space =
     [[CHR 0x09], [CHR 0x0A], [CHR 0x0B], [CHR 0x0C], [CHR 0x0D], [CHR 0x20],
      [CHR 0xC2, CHR 0x85], [CHR 0xC2, CHR 0xA0],
      [CHR 0xE1, CHR 0x9A, CHR 0x80],
      [CHR 0xE2, CHR 0x80, CHR 0x80], [CHR 0xE2, CHR 0x80, CHR 0x81],
      [CHR 0xE2, CHR 0x80, CHR 0x82], [CHR 0xE2, CHR 0x80, CHR 0x83],
      [CHR 0xE2, CHR 0x80, CHR 0x84], [CHR 0xE2, CHR 0x80, CHR 0x85],
      [CHR 0xE2, CHR 0x80, CHR 0x86], [CHR 0xE2, CHR 0x80, CHR 0x87],
      [CHR 0xE2, CHR 0x80, CHR 0x88], [CHR 0xE2, CHR 0x80, CHR 0x89],
      [CHR 0xE2, CHR 0x80, CHR 0x8A],
      [CHR 0xE2, CHR 0x80, CHR 0xA8], [CHR 0xE2, CHR 0x80, CHR 0xA9],
      [CHR 0xE2, CHR 0x80, CHR 0xAF],
      [CHR 0xE2, CHR 0x81, CHR 0x9F],
      [CHR 0xE3, CHR 0x80, CHR 0x80]]"

text \<open>The length in bytes of the white-space character a string starts (ends) with, or 0.\<close>

definition ws_prefix_len :: "string \<Rightarrow> nat" where
  "ws_prefix_len s =
     (case find (starts_with s) white_space of None \<Rightarrow> 0 | Some w \<Rightarrow> length w)"

definition ws_suffix_len :: "string \<Rightarrow> nat" where
  "ws_suffix_len s =
     (case find (ends_with s) white_space of None \<Rightarrow> 0 | Some w \<Rightarrow> length w)"

lemma ws_prefix_len_le: "ws_prefix_len s \<le> length s"
proof (cases "find (starts_with s) white_space")
  case None
  then show ?thesis by (simp add: ws_prefix_len_def)
next
  case (Some w)
  then have "starts_with s w" by (auto simp: find_Some_iff)
  then have "length (take (length w) s) = length w"
    by (simp only: starts_with_def)
  then have "length w \<le> length s" by simp
  with Some show ?thesis by (simp add: ws_prefix_len_def)
qed

lemma ws_suffix_len_le: "ws_suffix_len s \<le> length s"
  by (auto simp: ws_suffix_len_def ends_with_def find_Some_iff split: option.split)

text \<open>\<open>str::trim_start\<close>, \<open>str::trim_end\<close> and \<open>str::trim\<close>.\<close>

function trim_start :: "string \<Rightarrow> string" where
  "trim_start s =
     (if ws_prefix_len s = 0 then s else trim_start (drop (ws_prefix_len s) s))"
  by pat_completeness auto
termination
proof (relation "measure length")
  show "wf (measure length)" by simp
next
  fix s :: string
  assume "ws_prefix_len s \<noteq> 0"
  moreover have "ws_prefix_len s \<le> length s" by (rule ws_prefix_len_le)
  ultimately show "(drop (ws_prefix_len s) s, s) \<in> measure length" by simp
qed

function trim_end :: "string \<Rightarrow> string" where
  "trim_end s =
     (if ws_suffix_len s = 0 then s
      else trim_end (take (length s - ws_suffix_len s) s))"
  by pat_completeness auto
termination
proof (relation "measure length")
  show "wf (measure length)" by simp
next
  fix s :: string
  assume "ws_suffix_len s \<noteq> 0"
  moreover have "ws_suffix_len s \<le> length s" by (rule ws_suffix_len_le)
  ultimately show "(take (length s - ws_suffix_len s) s, s) \<in> measure length" by simp
qed

declare trim_start.simps [simp del]
declare trim_end.simps [simp del]

definition trim :: "string \<Rightarrow> string" where
  "trim s = trim_end (trim_start s)"

text \<open>
  \<open>str::split_whitespace\<close>: the maximal runs of characters that are not white space.
  The scan goes byte by byte; \<open>skip\<close> counts the bytes still to pass of a white-space
  character longer than one byte, \<open>cur\<close> is the run read so far.
\<close>

fun split_ws :: "nat \<Rightarrow> string \<Rightarrow> string \<Rightarrow> string list" where
  "split_ws skip cur [] = (if cur = [] then [] else [cur])"
| "split_ws skip cur (c # cs) =
     (if 0 < skip then split_ws (skip - 1) cur cs
      else if 0 < ws_prefix_len (c # cs)
        then (if cur = [] then [] else [cur]) @ split_ws (ws_prefix_len (c # cs) - 1) [] cs
        else split_ws 0 (cur @ [c]) cs)"

definition split_whitespace :: "string \<Rightarrow> string list" where
  "split_whitespace s = split_ws 0 [] s"

section \<open>Requests (src/request.rs)\<close>

text \<open>What a panic of the program carries: which \<open>unwrap\<close> or index failed.\<close>

datatype error = IoError | FromUtf8Error | SendError | JoinError

datatype panic = UnwrapNone | UnwrapErr error | IndexOutOfBounds | AssertionFailed

datatype Method = Get | Post | Put | Patch | Delete | Method_Uninitialized

definition Method_from :: "string \<Rightarrow> Method" where
  "Method_from s =
     (if s = ''GET'' then Get
      else if s = ''POST'' then Post
      else if s = ''PUT'' then Put
      else if s = ''PATCH'' then Patch
      else if s = ''DELETE'' then Delete
      else Method_Uninitialized)"

datatype ProtocolVersion = HTTP1_1 | HTTP2 | ProtocolVersion_Uninitialized

definition ProtocolVersion_from :: "string \<Rightarrow> ProtocolVersion" where
  "ProtocolVersion_from s =
     (if s = ''HTTP/1.1'' then HTTP1_1
      else if s = ''HTTP/2'' then HTTP2
      else ProtocolVersion_Uninitialized)"

datatype Resource = Path string

text \<open>The field \<open>method\<close> of the source is \<open>req_method\<close> here.\<close>

record Request =
  req_method :: Method
  protocol_version :: ProtocolVersion
  resource :: Resource
  headers :: "string \<rightharpoonup> string"
  body :: string

text \<open>
  \<open>process_req_line\<close> takes the first three white-space separated words with
  \<open>words.next().unwrap()\<close>: a missing word is a panic.
\<close>

definition process_req_line :: "string \<Rightarrow> panic + (Method \<times> Resource \<times> ProtocolVersion)" where
  "process_req_line line =
     (case split_whitespace line of
        m # r # v # _ \<Rightarrow> Inr (Method_from m, Path r, ProtocolVersion_from v)
      | _ \<Rightarrow> Inl UnwrapNone)"

text \<open>
  \<open>process_header\<close> iterates over \<open>line.split(":")\<close>: the key is the first piece, the
  value the second piece, both trimmed; a missing piece leaves the empty string.
\<close>

definition process_header :: "string \<Rightarrow> string \<times> string" where
  "process_header line =
     (case split_str line (CHR '':'') of
        [] \<Rightarrow> ([], [])
      | k # rest \<Rightarrow> (trim k, (case rest of [] \<Rightarrow> [] | v # _ \<Rightarrow> trim v)))"

text \<open>The loop of \<open>Request::from\<close> over the lines, the fields read so far in \<open>req\<close>.\<close>

fun parse_lines :: "string list \<Rightarrow> Request \<Rightarrow> panic + Request" where
  "parse_lines [] req = Inr req"
| "parse_lines (line # rest) req =
     (if contains line ''HTTP'' then
        (case process_req_line line of
           Inl p \<Rightarrow> Inl p
         | Inr (m, r, v) \<Rightarrow>
             parse_lines rest (req\<lparr>req_method := m, resource := r, protocol_version := v\<rparr>))
      else if contains line '':'' then
        (case process_header line of
           (key, val) \<Rightarrow> parse_lines rest (req\<lparr>headers := (headers req)(key \<mapsto> val)\<rparr>))
      else if line = [] then parse_lines rest req
      else parse_lines rest (req\<lparr>body := line\<rparr>))"

definition Request_init :: Request where
  "Request_init =
     \<lparr>req_method = Method_Uninitialized, protocol_version = ProtocolVersion_Uninitialized,
      resource = Path [], headers = Map.empty, body = []\<rparr>"

definition Request_from :: "string \<Rightarrow> panic + Request" where
  "Request_from req_str = parse_lines (lines req_str) Request_init"

section \<open>Responses (src/response.rs)\<close>

record Response =
  res_protocol_version :: string
  res_status_code :: string
  res_status_text :: string
  res_headers :: "(string \<rightharpoonup> string) option"
  res_body :: "string option"

definition Response_default :: Response where
  "Response_default =
     \<lparr>res_protocol_version = ''HTTP/1.1'', res_status_code = ''200'',
      res_status_text = ''OK'', res_headers = None, res_body = None\<rparr>"

definition status_text_of :: "string \<Rightarrow> string" where
  "status_text_of code =
     (if code = ''200'' then ''OK''
      else if code = ''400'' then ''Bad Request''
      else if code = ''500'' then ''Internal Server Error''
      else ''Not Found'')"

definition Response_new ::
  "string \<Rightarrow> (string \<rightharpoonup> string) option \<Rightarrow> string option \<Rightarrow> Response" where
  "Response_new status_code hdrs body_opt =
     (let response = Response_default;
          response = (if status_code \<noteq> ''200''
                      then response\<lparr>res_status_code := status_code\<rparr> else response);
          response = response\<lparr>res_status_text := status_text_of (res_status_code response)\<rparr>;
          response = response\<lparr>res_headers :=
                       (case hdrs of
                          Some h \<Rightarrow> hdrs
                        | None \<Rightarrow> Some [''Content-Type'' \<mapsto> ''text/plain''])\<rparr>
      in response\<lparr>res_body := body_opt\<rparr>)"

text \<open>The accessor \<open>body()\<close>: the body, or the empty string when there is none.\<close>

definition Response_body :: "Response \<Rightarrow> string" where
  "Response_body r = (case res_body r of Some s \<Rightarrow> s | None \<Rightarrow> [])"

text \<open>How \<open>format!\<close> prints a \<open>usize\<close>: decimal digits, no leading zero.\<close>

definition digit_char :: "nat \<Rightarrow> char" where
  "digit_char d =
     (if d = 0 then CHR ''0'' else if d = 1 then CHR ''1'' else if d = 2 then CHR ''2''
      else if d = 3 then CHR ''3'' else if d = 4 then CHR ''4'' else if d = 5 then CHR ''5''
      else if d = 6 then CHR ''6'' else if d = 7 then CHR ''7'' else if d = 8 then CHR ''8''
      else CHR ''9'')"

fun usize_to_string :: "nat \<Rightarrow> string" where
  "usize_to_string n =
     (if n < 10 then [digit_char n]
      else usize_to_string (n div 10) @ [digit_char (n mod 10)])"

declare usize_to_string.simps [simp del]

text \<open>
  \<open>String::from(Response)\<close>: one \<open>format!\<close> of the status line, the Content-Length
  line, an empty line and the body. The field \<open>headers\<close> is not an argument of the
  \<open>format!\<close>.
\<close>

definition String_from_Response :: "Response \<Rightarrow> string" where
  "String_from_Response r =
     res_protocol_version r @ '' '' @ res_status_code r @ '' '' @ res_status_text r
     @ [CR, LF] @ ''Content-Length:'' @ usize_to_string (length (Response_body r))
     @ [CR, LF, CR, LF] @ Response_body r"

text \<open>
  A connection, for the \<open>Read + Write\<close> the server asks of it: \<open>incoming\<close> is what one
  call of \<open>read\<close> finds (an error, or the bytes that have arrived), \<open>writable\<close> whether
  \<open>write_all\<close> succeeds, \<open>written\<close> the bytes written so far.
\<close>

record Stream =
  incoming :: "error + string"
  writable :: bool
  written :: string

definition write_all :: "Stream \<Rightarrow> string \<Rightarrow> error + Stream" where
  "write_all stream bytes =
     (if writable stream then Inr (stream\<lparr>written := written stream @ bytes\<rparr>)
      else Inl IoError)"

definition send :: "Response \<Rightarrow> Stream \<Rightarrow> error + Stream" where
  "send r stream = write_all stream (String_from_Response r)"

text \<open>
  The first project's \<open>handle_request\<close> builds its response with
  \<open>format!("{}\r\nContent-Length: {}\r\n\r\n{}", status_line, contents.len(), contents)\<close>.
\<close>

definition format_response :: "string \<Rightarrow> string \<Rightarrow> string" where
  "format_response status_line contents =
     status_line @ [CR, LF] @ ''Content-Length: '' @ usize_to_string (length contents)
     @ [CR, LF, CR, LF] @ contents"

section \<open>Handlers (src/handler.rs)\<close>

text \<open>
  The handlers read files. The file system is a parameter: what is at a path, if
  anything. \<open>fs::read_to_string\<close> gives the contents of a regular file that holds
  valid UTF-8 and fails on everything else. The environment holds the two values
  \<open>load_file\<close> reads: \<open>CARGO_MANIFEST_DIR\<close> and the variable \<open>PUBLIC_PATH\<close>.
  The trace of a handler lists its reads and its sleeps, in order; console output is not
  modelled.
\<close>

fun valid_utf8 :: "string \<Rightarrow> bool" where
  "valid_utf8 [] = True"
| "valid_utf8 (a # rest) =
     (let x = (of_char a :: nat) in
      if x < 0x80 then valid_utf8 rest
      else if 0xC2 \<le> x \<and> x \<le> 0xDF then
        (case rest of
           b # r \<Rightarrow> 0x80 \<le> (of_char b :: nat) \<and> (of_char b :: nat) \<le> 0xBF \<and> valid_utf8 r
         | _ \<Rightarrow> False)
      else if 0xE0 \<le> x \<and> x \<le> 0xEF then
        (case rest of
           b # c # r \<Rightarrow>
             (if x = 0xE0 then 0xA0 else 0x80) \<le> (of_char b :: nat)
             \<and> (of_char b :: nat) \<le> (if x = 0xED then 0x9F else 0xBF)
             \<and> 0x80 \<le> (of_char c :: nat) \<and> (of_char c :: nat) \<le> 0xBF \<and> valid_utf8 r
         | _ \<Rightarrow> False)
      else if 0xF0 \<le> x \<and> x \<le> 0xF4 then
        (case rest of
           b # c # d # r \<Rightarrow>
             (if x = 0xF0 then 0x90 else 0x80) \<le> (of_char b :: nat)
             \<and> (of_char b :: nat) \<le> (if x = 0xF4 then 0x8F else 0xBF)
             \<and> 0x80 \<le> (of_char c :: nat) \<and> (of_char c :: nat) \<le> 0xBF
             \<and> 0x80 \<le> (of_char d :: nat) \<and> (of_char d :: nat) \<le> 0xBF \<and> valid_utf8 r
         | _ \<Rightarrow> False)
      else False)"

datatype fs_entry = RegularFile string | Directory

type_synonym file_system = "string \<Rightarrow> fs_entry option"

definition read_to_string :: "file_system \<Rightarrow> string \<Rightarrow> string option" where
  "read_to_string fs file_path =
     (case fs file_path of
        Some (RegularFile bytes) \<Rightarrow> (if valid_utf8 bytes then Some bytes else None)
      | _ \<Rightarrow> None)"

record Env =
  cargo_manifest_dir :: string
  public_path_var :: "string option"

datatype effect = FsRead string | Sleep nat

definition public_path :: "Env \<Rightarrow> string" where
  "public_path env =
     (case public_path_var env of
        Some p \<Rightarrow> p
      | None \<Rightarrow> cargo_manifest_dir env @ ''/public'')"

definition load_file :: "Env \<Rightarrow> file_system \<Rightarrow> string \<Rightarrow> effect list \<times> string option" where
  "load_file env fs file_name =
     (let file_path = public_path env @ ''/'' @ file_name
      in ([FsRead file_path], read_to_string fs file_path))"

datatype Handler = ApiHandler | StaticFileHandler | NotFoundHandler

definition NotFoundHandler_handle :: "Env \<Rightarrow> file_system \<Rightarrow> Request \<Rightarrow> effect list \<times> Response" where
  "NotFoundHandler_handle env fs req =
     (case load_file env fs ''404.html'' of
        (effs, contents) \<Rightarrow> (effs, Response_new ''404'' None contents))"

definition content_type_of :: "string \<Rightarrow> string" where
  "content_type_of path =
     (if ends_with path ''.css'' then ''text/css''
      else if ends_with path ''.js'' then ''text/javascript''
      else if ends_with path ''.html'' then ''text/html''
      else ''text/plain'')"

definition StaticFileHandler_handle ::
  "Env \<Rightarrow> file_system \<Rightarrow> Request \<Rightarrow> panic + (effect list \<times> Response)" where
  "StaticFileHandler_handle env fs req =
     (case resource req of Path s \<Rightarrow>
        (let route = split_str s (CHR ''/'');
             hdrs = [''Content-Type'' \<mapsto> ''text/html'']
         in if length route \<le> 1 then Inl IndexOutOfBounds
            else if route ! 1 = [] \<or> route ! 1 = ''index.html'' then
              (case load_file env fs ''index.html'' of
                 (effs, contents) \<Rightarrow> Inr (effs, Response_new ''200'' (Some hdrs) contents))
            else if route ! 1 = ''sleep.html'' then
              (case load_file env fs ''sleep.html'' of
                 (effs, contents) \<Rightarrow>
                   Inr (Sleep 5 # effs, Response_new ''200'' (Some hdrs) contents))
            else
              (case load_file env fs (route ! 1) of
                 (effs, Some contents) \<Rightarrow>
                   Inr (effs,
                        Response_new ''200''
                          (Some (hdrs(''Content-Type'' \<mapsto> content_type_of (route ! 1))))
                          (Some contents))
               | (effs, None) \<Rightarrow>
                   (case NotFoundHandler_handle env fs req of
                      (effs', response) \<Rightarrow> Inr (effs @ effs', response)))))"

definition ApiHandler_handle :: "Request \<Rightarrow> Response" where
  \<open>ApiHandler_handle req =
     Response_new ''200'' (Some [''Content-Type'' \<mapsto> ''application/json''])
       (Some ''{"errno":0,"msg":"success", "data": null}'')\<close>

text \<open>The trait function \<open>handle\<close>, by implementor.\<close>

definition handle ::
  "Handler \<Rightarrow> Env \<Rightarrow> file_system \<Rightarrow> Request \<Rightarrow> panic + (effect list \<times> Response)" where
  "handle h env fs req =
     (case h of
        ApiHandler \<Rightarrow> Inr ([], ApiHandler_handle req)
      | StaticFileHandler \<Rightarrow> StaticFileHandler_handle env fs req
      | NotFoundHandler \<Rightarrow> Inr (NotFoundHandler_handle env fs req))"

section \<open>Router (src/router.rs) and connection handling (src/server.rs)\<close>

text \<open>
  \<open>response.send(stream).unwrap()\<close>: a failed write is a panic. The result of routing
  is the trace of the handler with either the panic or the connection after the write.
\<close>

definition send_unwrap :: "effect list \<times> Response \<Rightarrow> Stream \<Rightarrow> effect list \<times> (panic + Stream)" where
  "send_unwrap er stream =
     (case er of (effs, response) \<Rightarrow>
        (case send response stream of
           Inl e \<Rightarrow> (effs, Inl (UnwrapErr e))
         | Inr stream' \<Rightarrow> (effs, Inr stream')))"

definition Router_route ::
  "Env \<Rightarrow> file_system \<Rightarrow> Request \<Rightarrow> Stream \<Rightarrow> effect list \<times> (panic + Stream)" where
  "Router_route env fs req stream =
     (if req_method req = Get then
        (case resource req of Path s \<Rightarrow>
           (let route = split_str s (CHR ''/'')
            in if length route \<le> 1 then ([], Inl IndexOutOfBounds)
               else
                 (case (if route ! 1 = ''api'' then handle ApiHandler env fs req
                        else handle StaticFileHandler env fs req) of
                    Inl p \<Rightarrow> ([], Inl p)
                  | Inr er \<Rightarrow> send_unwrap er stream)))
      else
        (case handle NotFoundHandler env fs req of
           Inl p \<Rightarrow> ([], Inl p)
         | Inr er \<Rightarrow> send_unwrap er stream))"

text \<open>
  \<open>handle_http_request\<close>: one \<open>read\<close> into a buffer of 1024 zero bytes, the whole
  buffer decoded as UTF-8, parsed and routed; the read and the decoding are unwrapped.
\<close>

definition read_buffer :: "Stream \<Rightarrow> error + string" where
  "read_buffer stream =
     (case incoming stream of
        Inl e \<Rightarrow> Inl e
      | Inr bytes \<Rightarrow> Inr (take 1024 bytes @ replicate (1024 - length bytes) NUL))"

definition handle_http_request ::
  "Env \<Rightarrow> file_system \<Rightarrow> Stream \<Rightarrow> effect list \<times> (panic + Stream)" where
  "handle_http_request env fs stream =
     (case read_buffer stream of
        Inl e \<Rightarrow> ([], Inl (UnwrapErr e))
      | Inr buffer \<Rightarrow>
          (if \<not> valid_utf8 buffer then ([], Inl (UnwrapErr FromUtf8Error))
           else
             (case Request_from buffer of
                Inl p \<Rightarrow> ([], Inl p)
              | Inr request \<Rightarrow> Router_route env fs request stream)))"

section \<open>Thread pool (src/thread_pool.rs)\<close>

text \<open>
  A job is a boxed closure run once. In the model a job acts on a world \<open>'w\<close> (whatever
  the closure touches) and either panics or leaves a new world.
\<close>

datatype 'w TaskMessage = NewTask "'w \<Rightarrow> panic + 'w" | Exit

text \<open>A join handle is the index of its thread.\<close>

record Worker =
  worker_id :: nat
  thread :: "nat option"

record ThreadPool =
  workers :: "Worker list"

definition Worker_new :: "nat \<Rightarrow> Worker" where
  "Worker_new i = \<lparr>worker_id = i, thread = Some i\<rparr>"

definition ThreadPool_new :: "nat \<Rightarrow> panic + ThreadPool" where
  "ThreadPool_new thread_count =
     (if 0 < thread_count then Inr \<lparr>workers = map Worker_new [0..<thread_count]\<rparr>
      else Inl AssertionFailed)"

text \<open>
  What the thread that owns the pool does, one channel or thread operation at a time:
  \<open>execute\<close> sends one \<open>NewTask\<close>; \<open>drop\<close> goes through the workers and joins each
  thread it can take. Console output is not modelled.
\<close>

datatype 'w main_op = Send "'w TaskMessage" | Join nat

definition ThreadPool_execute :: "('w \<Rightarrow> panic + 'w) \<Rightarrow> 'w main_op list" where
  "ThreadPool_execute f = [Send (NewTask f)]"

fun drop_workers :: "Worker list \<Rightarrow> 'w main_op list \<times> Worker list" where
  "drop_workers [] = ([], [])"
| "drop_workers (worker # rest) =
     (case drop_workers rest of (ops, rest') \<Rightarrow>
        (case thread worker of
           Some t \<Rightarrow> (Join t # ops, worker\<lparr>thread := None\<rparr> # rest')
         | None \<Rightarrow> (ops, worker # rest')))"

definition ThreadPool_drop :: "ThreadPool \<Rightarrow> 'w main_op list \<times> ThreadPool" where
  "ThreadPool_drop pool =
     (case drop_workers (workers pool) of (ops, ws) \<Rightarrow> (ops, pool\<lparr>workers := ws\<rparr>))"

text \<open>
  The running system: the messages in the channel, oldest first; the state of every
  worker thread; what the owning thread has still to do, or the panic that ended it;
  and the world. The sender is a field of the pool, so it exists until \<open>drop\<close> has
  returned: a worker that finds the channel empty waits. A job runs in one step.
\<close>

datatype thread_state = Running | Finished | Panicked panic

record 'w system =
  queue :: "'w TaskMessage list"
  threads :: "thread_state list"
  main :: "panic + 'w main_op list"
  world :: 'w

text \<open>
  One turn of the loop in \<open>Worker::new\<close> for worker \<open>i\<close>: receive a message; run a
  new task (a panic of the job unwinds the thread, nothing catches it), or leave the
  loop on \<open>Exit\<close>. \<open>None\<close>: the thread has ended or waits in \<open>recv\<close>.
\<close>

definition worker_step :: "nat \<Rightarrow> 'w system \<Rightarrow> 'w system option" where
  "worker_step i s =
     (if i < length (threads s) \<and> threads s ! i = Running then
        (case queue s of
           [] \<Rightarrow> None
         | NewTask job # q \<Rightarrow>
             (case job (world s) of
                Inl p \<Rightarrow> Some (s\<lparr>queue := q, threads := (threads s)[i := Panicked p]\<rparr>)
              | Inr w \<Rightarrow> Some (s\<lparr>queue := q, world := w\<rparr>))
         | Exit # q \<Rightarrow> Some (s\<lparr>queue := q, threads := (threads s)[i := Finished]\<rparr>))
      else None)"

text \<open>
  One operation of the owning thread. \<open>sender.send(..).unwrap()\<close> fails when the
  receiver is gone, which is when no worker thread is left to hold it.
  \<open>thread.join().unwrap()\<close> waits for the thread to end and fails when it panicked.
\<close>

definition main_step :: "'w system \<Rightarrow> 'w system option" where
  "main_step s =
     (case main s of
        Inl p \<Rightarrow> None
      | Inr [] \<Rightarrow> None
      | Inr (Send m # ops) \<Rightarrow>
          (if list_ex (\<lambda>t. t = Running) (threads s)
           then Some (s\<lparr>queue := queue s @ [m], main := Inr ops\<rparr>)
           else Some (s\<lparr>main := Inl (UnwrapErr SendError)\<rparr>))
      | Inr (Join i # ops) \<Rightarrow>
          (if i < length (threads s) then
             (case threads s ! i of
                Running \<Rightarrow> None
              | Finished \<Rightarrow> Some (s\<lparr>main := Inr ops\<rparr>)
              | Panicked p \<Rightarrow> Some (s\<lparr>main := Inl (UnwrapErr JoinError)\<rparr>))
           else None))"

inductive step :: "'w system \<Rightarrow> 'w system \<Rightarrow> bool" where
  worker: "worker_step i s = Some s' \<Longrightarrow> step s s'"
| owner: "main_step s = Some s' \<Longrightarrow> step s s'"

inductive reachable :: "'w system \<Rightarrow> 'w system \<Rightarrow> bool" where
  start: "reachable s s"
| next_step: "reachable s s' \<Longrightarrow> step s' s'' \<Longrightarrow> reachable s s''"

text \<open>
  The job \<open>Server::run\<close> submits for a connection: the closure calls
  \<open>handle_http_request\<close>. The world is the list of connections served, each with the
  trace of its handler.
\<close>

definition connection_job ::
  "Env \<Rightarrow> file_system \<Rightarrow> Stream \<Rightarrow> (effect list \<times> Stream) list \<Rightarrow> panic + (effect list \<times> Stream) list" where
  "connection_job env fs stream served =
     (case handle_http_request env fs stream of
        (effs, Inl p) \<Rightarrow> Inl p
      | (effs, Inr stream') \<Rightarrow> Inr (served @ [(effs, stream')]))"

section \<open>Inputs used in the examples\<close>

text \<open>
  A package directory \<open>/srv\<close> without \<open>PUBLIC_PATH\<close>, so that the root directory is
  \<open>/srv/public\<close>; a root directory with a home page and a 404 page; and a connection
  on which nothing has been written yet.
\<close>

definition example_env :: Env where
  "example_env = \<lparr>cargo_manifest_dir = ''/srv'', public_path_var = None\<rparr>"

definition example_fs :: file_system where
  "example_fs file_path =
     (if file_path = ''/srv/public/index.html'' then Some (RegularFile ''<h2>home</h2>'')
      else if file_path = ''/srv/public/404.html'' then Some (RegularFile ''<h2>NotFound</h2>'')
      else if file_path = ''/srv/public/..'' then Some Directory
      else if file_path = ''/srv/public'' then Some Directory
      else None)"

definition example_stream :: Stream where
  "example_stream = \<lparr>incoming = Inr [], writable = True, written = []\<rparr>"

definition get_request :: "string \<Rightarrow> Request" where
  "get_request s = Request_init\<lparr>req_method := Get, resource := Path s, protocol_version := HTTP1_1\<rparr>"

section \<open>Notions the properties are stated with\<close>

text \<open>Routing to a handler \<open>h\<close>: its response, sent on the connection and unwrapped.\<close>

definition respond_with ::
  "Handler \<Rightarrow> Env \<Rightarrow> file_system \<Rightarrow> Request \<Rightarrow> Stream \<Rightarrow> effect list \<times> (panic + Stream)" where
  "respond_with h env fs req stream =
     (case handle h env fs req of
        Inl p \<Rightarrow> ([], Inl p)
      | Inr er \<Rightarrow> send_unwrap er stream)"

text \<open>
  The routing rule in the words of the specification: Not-Found unless the method is
  GET; else the API handler if the first non-empty segment of the path split on \<open>/\<close>
  is \<open>api\<close>, else the static file handler.
\<close>

definition spec_first_nonempty_segment :: "string \<Rightarrow> string option" where
  "spec_first_nonempty_segment s = find (\<lambda>p. p \<noteq> []) (split_str s (CHR ''/''))"

definition spec_route :: "Request \<Rightarrow> Handler" where
  "spec_route req =
     (if req_method req \<noteq> Get then NotFoundHandler
      else (case resource req of Path s \<Rightarrow>
              if spec_first_nonempty_segment s = Some ''api'' then ApiHandler
              else StaticFileHandler))"

text \<open>
  A path made of the root directory and one more component: \<open>{root}/{name}\<close> with a
  non-empty \<open>name\<close> that has no \<open>/\<close>. Such a path names an entry of the root directory
  itself, unless the component is \<open>.\<close> or \<open>..\<close>, which name the root directory and its
  parent: directories, which \<open>fs::read_to_string\<close> cannot read.
\<close>

definition one_component_below_root :: "Env \<Rightarrow> string \<Rightarrow> bool" where
  "one_component_below_root env file_path =
     (\<exists>name. name \<noteq> [] \<and> CHR ''/'' \<notin> set name \<and> file_path = public_path env @ ''/'' @ name)"

text \<open>
  The number a string of decimal digits denotes, for reading a Content-Length value
  back; and \<open>chars().count()\<close>, the number of characters of a UTF-8 string: its
  bytes that are not continuation bytes.
\<close>

definition decimal_value :: "string \<Rightarrow> nat" where
  "decimal_value ds = foldl (\<lambda>n d. 10 * n + (of_char d - 48)) 0 ds"

definition is_decimal_digit :: "char \<Rightarrow> bool" where
  "is_decimal_digit c = (48 \<le> (of_char c :: nat) \<and> (of_char c :: nat) \<le> 57)"

definition char_count :: "string \<Rightarrow> nat" where
  "char_count s = length (filter (\<lambda>b. \<not> (0x80 \<le> (of_char b :: nat) \<and> (of_char b :: nat) < 0xC0)) s)"

text \<open>
  A header line in the words of the specification: split at the first \<open>:\<close>, the key
  before it and the value after it, both trimmed.
\<close>

definition spec_process_header :: "string \<Rightarrow> string \<times> string" where
  "spec_process_header line =
     (trim (takeWhile (\<lambda>c. c \<noteq> CHR '':'') line),
      trim (tl (dropWhile (\<lambda>c. c \<noteq> CHR '':'') line)))"

text \<open>
  A line that \<open>Request::from\<close> takes for the request line (it contains \<open>HTTP\<close>) and
  that has fewer than three words.
\<close>

definition malformed_request_line :: "string \<Rightarrow> bool" where
  "malformed_request_line line =
     (contains line ''HTTP'' \<and> length (split_whitespace line) < 3)"

text \<open>
  The system at the moment the pool is dropped: the messages \<open>q\<close> still in the
  channel, every worker in its loop, and the owning thread about to run \<open>drop\<close>.
\<close>

definition pool_dropping :: "ThreadPool \<Rightarrow> 'w TaskMessage list \<Rightarrow> 'w \<Rightarrow> 'w system" where
  "pool_dropping pool q w =
     \<lparr>queue = q, threads = replicate (length (workers pool)) Running,
      main = Inr (fst (ThreadPool_drop pool)), world = w\<rparr>"

text \<open>
  What holds from then on: the owning thread still has all its joins to do or has
  panicked in one, no worker has left its loop, and no \<open>Exit\<close> is in the channel.
\<close>

definition waiting_in_drop :: "nat \<Rightarrow> 'w system \<Rightarrow> bool" where
  "waiting_in_drop n s =
     ((main s = Inr (map Join [0..<n]) \<or> main s = Inl (UnwrapErr JoinError))
      \<and> length (threads s) = n \<and> Finished \<notin> set (threads s) \<and> Exit \<notin> set (queue s))"

text \<open>
  A connection whose read fails, and a pool of four workers (as \<open>Server::run\<close> makes
  it) with four such connections queued while the accepting thread submits one more.
\<close>

definition failing_stream :: Stream where
  "failing_stream = \<lparr>incoming = Inl IoError, writable = True, written = []\<rparr>"

definition four_failing_connections :: "(effect list \<times> Stream) list system" where
  "four_failing_connections =
     \<lparr>queue = replicate 4 (NewTask (connection_job example_env example_fs failing_stream)),
      threads = [Running, Running, Running, Running],
      main = Inr (ThreadPool_execute (connection_job example_env example_fs example_stream)),
      world = []\<rparr>"

section \<open>Splitting a path\<close>

lemma split_str_not_Nil: "split_str s sep \<noteq> []"
  by (induction s) (auto split: list.split)

lemma split_str_no_sep: "sep \<notin> set s \<Longrightarrow> split_str s sep = [s]"
  by (induction s) auto

lemma split_str_append_sep:
  "sep \<notin> set a \<Longrightarrow> split_str (a @ sep # b) sep = a # split_str b sep"
  by (induction a) auto

lemma split_at_first:
  "sep \<in> set s \<Longrightarrow> s = takeWhile (\<lambda>c. c \<noteq> sep) s @ sep # tl (dropWhile (\<lambda>c. c \<noteq> sep) s)"
  by (induction s) auto

lemma split_str_first:
  assumes "sep \<in> set s"
  shows "split_str s sep =
           takeWhile (\<lambda>c. c \<noteq> sep) s # split_str (tl (dropWhile (\<lambda>c. c \<noteq> sep) s)) sep"
proof -
  have "sep \<notin> set (takeWhile (\<lambda>c. c \<noteq> sep) s)"
    by (auto dest: set_takeWhileD)
  from split_str_append_sep [OF this] split_at_first [OF assms]
  show ?thesis by metis
qed

lemma split_str_hd: "split_str s sep ! 0 = takeWhile (\<lambda>c. c \<noteq> sep) s"
  by (induction s) (auto split: list.split simp: split_str_not_Nil)

lemma length_split_str: "1 < length (split_str s sep) \<longleftrightarrow> sep \<in> set s"
proof
  assume "1 < length (split_str s sep)"
  then show "sep \<in> set s" using split_str_no_sep [of sep s] by (cases "sep \<in> set s") auto
next
  assume "sep \<in> set s"
  from split_str_first [OF this] show "1 < length (split_str s sep)"
    using split_str_not_Nil [of "tl (dropWhile (\<lambda>c. c \<noteq> sep) s)" sep]
    by (cases "split_str (tl (dropWhile (\<lambda>c. c \<noteq> sep) s)) sep") auto
qed

lemma split_str_nth1:
  "sep \<in> set s \<Longrightarrow>
     split_str s sep ! 1 = takeWhile (\<lambda>c. c \<noteq> sep) (tl (dropWhile (\<lambda>c. c \<noteq> sep) s))"
  using split_str_hd [of "tl (dropWhile (\<lambda>c. c \<noteq> sep) s)" sep]
  by (simp add: split_str_first)

lemma split_str_pieces: "p \<in> set (split_str s sep) \<Longrightarrow> sep \<notin> set p"
  by (induction s arbitrary: p) (auto split: if_splits list.splits)

section \<open>Routing a path without a slash\<close>

lemma static_handle_defined:
  assumes "resource req = Path s" and "CHR ''/'' \<in> set s"
  shows "\<exists>er. StaticFileHandler_handle env fs req = Inr er"
proof -
  have "\<not> length (split_str s (CHR ''/'')) \<le> 1"
    using assms(2) length_split_str [of s "CHR ''/''"] by simp
  then show ?thesis
    using assms(1)
    by (simp add: StaticFileHandler_handle_def Let_def split: prod.split option.split)
qed

lemma static_handle_no_slash:
  assumes "resource req = Path s" and "CHR ''/'' \<notin> set s"
  shows "StaticFileHandler_handle env fs req = Inl IndexOutOfBounds"
  using assms by (simp add: StaticFileHandler_handle_def split_str_no_sep)

lemma send_unwrap_panic: "snd (send_unwrap er stream) = Inl p \<Longrightarrow> p = UnwrapErr IoError"
  by (auto simp: send_unwrap_def send_def write_all_def split: prod.splits if_splits)

lemma send_unwrap_in_bounds: "snd (send_unwrap er stream) \<noteq> Inl IndexOutOfBounds"
  using send_unwrap_panic [of er stream IndexOutOfBounds] by auto

text \<open>
  C10. \<open>Router::route\<close> and \<open>StaticFileHandler::handle\<close> index the path split on
  \<open>/\<close> at 1 without a check. For a GET request the index is out of bounds exactly when
  the path has no \<open>/\<close>; then routing panics before any file is read and before
  anything is written to the connection, so no response is produced.
\<close>

theorem route_needs_a_slash:
  assumes "req_method req = Get" and "resource req = Path s"
  shows "(snd (Router_route env fs req stream) = Inl IndexOutOfBounds \<longleftrightarrow> CHR ''/'' \<notin> set s)
       \<and> (StaticFileHandler_handle env fs req = Inl IndexOutOfBounds \<longleftrightarrow> CHR ''/'' \<notin> set s)
       \<and> (CHR ''/'' \<notin> set s \<longrightarrow> Router_route env fs req stream = ([], Inl IndexOutOfBounds))"
proof (cases "CHR ''/'' \<in> set s")
  case True
  then have len: "\<not> length (split_str s (CHR ''/'')) \<le> 1"
    using length_split_str [of s "CHR ''/''"] by simp
  obtain er where st: "StaticFileHandler_handle env fs req = Inr er"
    using static_handle_defined [OF assms(2) True] by blast
  have "snd (Router_route env fs req stream) \<noteq> Inl IndexOutOfBounds"
    using assms len st
    by (simp add: Router_route_def handle_def send_unwrap_in_bounds)
  with True st show ?thesis by simp
next
  case False
  then have "Router_route env fs req stream = ([], Inl IndexOutOfBounds)"
    using assms by (simp add: Router_route_def split_str_no_sep)
  with False static_handle_no_slash [OF assms(2) False] show ?thesis by simp
qed

lemma split_whitespace_get_foo:
  "split_whitespace ''GET foo HTTP/1.1'' = [''GET'', ''foo'', ''HTTP/1.1'']"
  by (simp add: split_whitespace_def ws_prefix_len_def white_space_def starts_with_def)

lemma parse_get_foo: "Request_from ''GET foo HTTP/1.1'' = Inr (get_request ''foo'')"
  by (simp add: Request_from_def lines_def process_req_line_def split_whitespace_get_foo
      starts_with_def Method_from_def ProtocolVersion_from_def get_request_def)

text \<open>
  The request line \<open>GET foo HTTP/1.1\<close> parses to a GET request with the path \<open>foo\<close>;
  routing it panics.
\<close>

theorem route_needs_a_slash_witness:
  "Request_from ''GET foo HTTP/1.1'' = Inr (get_request ''foo'')
   \<and> req_method (get_request ''foo'') = Get
   \<and> resource (get_request ''foo'') = Path ''foo''
   \<and> Router_route example_env example_fs (get_request ''foo'') example_stream
       = ([], Inl IndexOutOfBounds)
   \<and> StaticFileHandler_handle example_env example_fs (get_request ''foo'')
       = Inl IndexOutOfBounds"
  using route_needs_a_slash [of "get_request ''foo''" "''foo''" example_env example_fs example_stream]
    parse_get_foo
  by (simp add: get_request_def)

section \<open>Which handler a request is routed to\<close>

text \<open>
  C6 (as amended). \<open>Router::route\<close> answers with the Not-Found handler whenever the
  method is not GET. For a GET request whose path contains a \<open>/\<close> it answers with the
  API handler if and only if the segment at index 1 of the path split on \<open>/\<close>, which is
  the text between the first \<open>/\<close> and the next one (or the end), equals \<open>api\<close>;
  otherwise with the static file handler.
\<close>

theorem route_selects_handler:
  "(req_method req \<noteq> Get \<longrightarrow>
      Router_route env fs req stream = respond_with NotFoundHandler env fs req stream)
   \<and> (req_method req = Get \<and> resource req = Path s \<and> CHR ''/'' \<in> set s \<longrightarrow>
      Router_route env fs req stream =
        respond_with
          (if takeWhile (\<lambda>c. c \<noteq> CHR ''/'') (tl (dropWhile (\<lambda>c. c \<noteq> CHR ''/'') s)) = ''api''
           then ApiHandler else StaticFileHandler)
          env fs req stream)"
proof (intro conjI impI)
  assume "req_method req \<noteq> Get"
  then show "Router_route env fs req stream = respond_with NotFoundHandler env fs req stream"
    by (simp add: Router_route_def respond_with_def)
next
  assume a: "req_method req = Get \<and> resource req = Path s \<and> CHR ''/'' \<in> set s"
  then have len: "\<not> length (split_str s (CHR ''/'')) \<le> 1"
    using length_split_str [of s "CHR ''/''"] by simp
  from a have seg: "split_str s (CHR ''/'') ! 1
      = takeWhile (\<lambda>c. c \<noteq> CHR ''/'') (tl (dropWhile (\<lambda>c. c \<noteq> CHR ''/'') s))"
    using split_str_nth1 [of "CHR ''/''" s] by simp
  show "Router_route env fs req stream =
        respond_with
          (if takeWhile (\<lambda>c. c \<noteq> CHR ''/'') (tl (dropWhile (\<lambda>c. c \<noteq> CHR ''/'') s)) = ''api''
           then ApiHandler else StaticFileHandler)
          env fs req stream"
    using a len seg [symmetric]
    by (simp add: Router_route_def respond_with_def Let_def del: One_nat_def)
qed

text \<open>\<open>GET /api/users\<close> goes to the API handler, \<open>POST /\<close> to the Not-Found handler.\<close>

theorem route_selects_handler_witness:
  "req_method (get_request ''/api/users'') = Get
   \<and> resource (get_request ''/api/users'') = Path ''/api/users''
   \<and> CHR ''/'' \<in> set ''/api/users''
   \<and> Router_route example_env example_fs (get_request ''/api/users'') example_stream
       = respond_with ApiHandler example_env example_fs (get_request ''/api/users'') example_stream
   \<and> req_method ((get_request ''/'')\<lparr>req_method := Post\<rparr>) \<noteq> Get
   \<and> Router_route example_env example_fs ((get_request ''/'')\<lparr>req_method := Post\<rparr>) example_stream
       = respond_with NotFoundHandler example_env example_fs
           ((get_request ''/'')\<lparr>req_method := Post\<rparr>) example_stream"
  using route_selects_handler [of "get_request ''/api/users''" example_env example_fs example_stream
      "''/api/users''"]
    route_selects_handler [of "(get_request ''/'')\<lparr>req_method := Post\<rparr>" example_env example_fs
      example_stream "''/''"]
  by (simp add: get_request_def Request_init_def)

lemmas example_defs = Router_route_def respond_with_def handle_def StaticFileHandler_handle_def
  NotFoundHandler_handle_def ApiHandler_handle_def load_file_def public_path_def read_to_string_def
  send_unwrap_def send_def write_all_def String_from_Response_def Response_new_def
  Response_default_def Response_body_def status_text_of_def content_type_of_def
  example_env_def example_fs_def example_stream_def get_request_def Request_init_def
  usize_to_string.simps digit_char_def ends_with_def Let_def

text \<open>
  The claim as stated fails for the path \<open>//api\<close>: its first non-empty segment is
  \<open>api\<close>, so the rule of the specification selects the API handler, but the segment at
  index 1 is empty and the request is answered by the static file handler, which reads
  the home page.
\<close>

theorem route_first_nonempty_segment_counterexample:
  "req_method (get_request ''//api'') = Get
   \<and> spec_first_nonempty_segment ''//api'' = Some ''api''
   \<and> spec_route (get_request ''//api'') = ApiHandler
   \<and> Router_route example_env example_fs (get_request ''//api'') example_stream
       = respond_with StaticFileHandler example_env example_fs (get_request ''//api'') example_stream
   \<and> Router_route example_env example_fs (get_request ''//api'') example_stream
       \<noteq> respond_with ApiHandler example_env example_fs (get_request ''//api'') example_stream
   \<and> fst (Router_route example_env example_fs (get_request ''//api'') example_stream)
       = [FsRead ''/srv/public/index.html'']
   \<and> fst (respond_with ApiHandler example_env example_fs (get_request ''//api'') example_stream)
       = []"
  by (simp add: example_defs spec_route_def spec_first_nonempty_segment_def)

section \<open>Where the static file handler reads\<close>

lemma load_file_reads:
  "load_file env fs name = ([FsRead (public_path env @ ''/'' @ name)],
     read_to_string fs (public_path env @ ''/'' @ name))"
  by (simp add: load_file_def Let_def)

lemma one_component_below_rootI:
  "name \<noteq> [] \<Longrightarrow> CHR ''/'' \<notin> set name \<Longrightarrow>
     one_component_below_root env (public_path env @ ''/'' @ name)"
  unfolding one_component_below_root_def by blast

lemma static_reads:
  assumes h: "StaticFileHandler_handle env fs req = Inr (effs, response)"
    and r: "resource req = Path s"
  shows "CHR ''/'' \<in> set s
    \<and> (\<exists>name. name \<noteq> [] \<and> CHR ''/'' \<notin> set name
          \<and> (effs = [FsRead (public_path env @ ''/'' @ name)]
              \<or> effs = [Sleep 5, FsRead (public_path env @ ''/'' @ name)]
              \<or> effs = [FsRead (public_path env @ ''/'' @ name),
                         FsRead (public_path env @ ''/404.html'')]))"
proof -
  let ?route = "split_str s (CHR ''/'')"
  have slash: "CHR ''/'' \<in> set s"
    using h r static_handle_no_slash [of req s env fs] by (cases "CHR ''/'' \<in> set s") auto
  then have len: "\<not> length ?route \<le> 1" using length_split_str [of s "CHR ''/''"] by simp
  then have "?route ! 1 \<in> set ?route" by simp
  then have noslash: "CHR ''/'' \<notin> set (?route ! 1)" by (rule split_str_pieces)
  consider (index) "?route ! 1 = [] \<or> ?route ! 1 = ''index.html''"
    | (sleep) "?route ! 1 = ''sleep.html''"
    | (other) "?route ! 1 \<noteq> []" "?route ! 1 \<noteq> ''index.html''" "?route ! 1 \<noteq> ''sleep.html''"
    by blast
  then show ?thesis
  proof cases
    case index
    then have "effs = [FsRead (public_path env @ ''/'' @ ''index.html'')]"
      using h r len
      by (auto simp: StaticFileHandler_handle_def load_file_reads Let_def simp del: One_nat_def)
    with index slash show ?thesis by (intro conjI exI [of _ "''index.html''"]) auto
  next
    case sleep
    then have "effs = [Sleep 5, FsRead (public_path env @ ''/'' @ ''sleep.html'')]"
      using h r len
      by (auto simp: StaticFileHandler_handle_def load_file_reads Let_def simp del: One_nat_def)
    with sleep slash show ?thesis by (intro conjI exI [of _ "''sleep.html''"]) auto
  next
    case other
    then have "effs = [FsRead (public_path env @ ''/'' @ ?route ! 1)]
        \<or> effs = [FsRead (public_path env @ ''/'' @ ?route ! 1),
                   FsRead (public_path env @ ''/404.html'')]"
      using h r len
      by (auto simp: StaticFileHandler_handle_def NotFoundHandler_handle_def load_file_reads Let_def
          simp del: One_nat_def split: option.splits)
    with other noslash slash show ?thesis by (intro conjI exI [of _ "?route ! 1"]) auto
  qed
qed

lemma static_handle_by_segment:
  assumes "resource req = Path s" and "CHR ''/'' \<in> set s"
  shows "StaticFileHandler_handle env fs req =
     (let seg = split_str s (CHR ''/'') ! 1 in
      if seg = [] \<or> seg = ''index.html'' then
        Inr ([FsRead (public_path env @ ''/index.html'')],
             Response_new ''200'' (Some [''Content-Type'' \<mapsto> ''text/html''])
               (read_to_string fs (public_path env @ ''/index.html'')))
      else if seg = ''sleep.html'' then
        Inr ([Sleep 5, FsRead (public_path env @ ''/sleep.html'')],
             Response_new ''200'' (Some [''Content-Type'' \<mapsto> ''text/html''])
               (read_to_string fs (public_path env @ ''/sleep.html'')))
      else
        (case read_to_string fs (public_path env @ ''/'' @ seg) of
           Some contents \<Rightarrow>
             Inr ([FsRead (public_path env @ ''/'' @ seg)],
                  Response_new ''200'' (Some [''Content-Type'' \<mapsto> content_type_of seg])
                    (Some contents))
         | None \<Rightarrow>
             Inr ([FsRead (public_path env @ ''/'' @ seg), FsRead (public_path env @ ''/404.html'')],
                  Response_new ''404'' None
                    (read_to_string fs (public_path env @ ''/404.html'')))))"
proof -
  have "\<not> length (split_str s (CHR ''/'')) \<le> 1"
    using assms(2) length_split_str [of s "CHR ''/''"] by simp
  with assms(1) show ?thesis
    by (simp add: StaticFileHandler_handle_def NotFoundHandler_handle_def load_file_reads Let_def
        del: One_nat_def split: option.split)
qed

lemma Response_new_fields:
  "res_status_code (Response_new code hdrs b) = code"
  "res_body (Response_new code hdrs b) = b"
  "res_protocol_version (Response_new code hdrs b) = ''HTTP/1.1''"
  "res_status_text (Response_new code hdrs b) = status_text_of code"
  by (auto simp: Response_new_def Response_default_def Let_def)

text \<open>
  C1 (as amended). Whenever \<open>StaticFileHandler::handle\<close> returns a response (the
  path has a \<open>/\<close>), every file it reads is at the root directory followed by one path
  component: the handler resolves only the segment at index 1, never the whole path.
  When that segment is \<open>..\<close> itself, the handler tries \<open>{root}/..\<close>, which is a
  directory and not a regular file, then reads the 404 page and answers 404. Segments
  after index 1, \<open>..\<close> or not, are ignored: two paths with the same segment at index 1
  get the same reads and the same response, which is what that segment selects. An
  empty segment or \<open>index.html\<close> reads \<open>{root}/index.html\<close> and answers 200 with what
  was read; \<open>sleep.html\<close> sleeps, reads \<open>{root}/sleep.html\<close> and answers 200; any other
  segment reads \<open>{root}/{segment}\<close> and answers 200 with its contents, or, when that
  cannot be read, reads the 404 page and answers 404.
\<close>

theorem static_handler_stays_in_root:
  assumes "StaticFileHandler_handle env fs req = Inr (effs, response)"
    and "resource req = Path s"
  shows "CHR ''/'' \<in> set s
    \<and> (\<forall>file_path. FsRead file_path \<in> set effs \<longrightarrow> one_component_below_root env file_path)
    \<and> (split_str s (CHR ''/'') ! 1 = ''..''
         \<and> (\<forall>bytes. fs (public_path env @ ''/..'') \<noteq> Some (RegularFile bytes)) \<longrightarrow>
        effs = [FsRead (public_path env @ ''/..''), FsRead (public_path env @ ''/404.html'')]
        \<and> res_status_code response = ''404''
        \<and> res_body response = read_to_string fs (public_path env @ ''/404.html''))
    \<and> (resource req' = Path s' \<and> CHR ''/'' \<in> set s'
         \<and> split_str s' (CHR ''/'') ! 1 = split_str s (CHR ''/'') ! 1 \<longrightarrow>
        StaticFileHandler_handle env fs req' = Inr (effs, response))
    \<and> (split_str s (CHR ''/'') ! 1 \<in> {[], ''index.html''} \<longrightarrow>
        effs = [FsRead (public_path env @ ''/index.html'')]
        \<and> res_status_code response = ''200''
        \<and> res_body response = read_to_string fs (public_path env @ ''/index.html''))
    \<and> (split_str s (CHR ''/'') ! 1 = ''sleep.html'' \<longrightarrow>
        effs = [Sleep 5, FsRead (public_path env @ ''/sleep.html'')]
        \<and> res_status_code response = ''200''
        \<and> res_body response = read_to_string fs (public_path env @ ''/sleep.html''))
    \<and> (split_str s (CHR ''/'') ! 1 \<notin> {[], ''index.html'', ''sleep.html''}
         \<and> read_to_string fs (public_path env @ ''/'' @ split_str s (CHR ''/'') ! 1) = Some contents \<longrightarrow>
        effs = [FsRead (public_path env @ ''/'' @ split_str s (CHR ''/'') ! 1)]
        \<and> res_status_code response = ''200''
        \<and> res_body response = Some contents)
    \<and> (split_str s (CHR ''/'') ! 1 \<notin> {[], ''index.html'', ''sleep.html''}
         \<and> read_to_string fs (public_path env @ ''/'' @ split_str s (CHR ''/'') ! 1) = None \<longrightarrow>
        effs = [FsRead (public_path env @ ''/'' @ split_str s (CHR ''/'') ! 1),
                FsRead (public_path env @ ''/404.html'')]
        \<and> res_status_code response = ''404''
        \<and> res_body response = read_to_string fs (public_path env @ ''/404.html''))"
proof -
  let ?seg = "split_str s (CHR ''/'') ! 1"
  from static_reads [OF assms] have slash: "CHR ''/'' \<in> set s" by simp
  note unfold = static_handle_by_segment [OF assms(2) slash, of env fs]
  have reads: "\<forall>file_path. FsRead file_path \<in> set effs \<longrightarrow> one_component_below_root env file_path"
  proof (intro allI impI)
    fix file_path
    assume "FsRead file_path \<in> set effs"
    moreover from static_reads [OF assms] obtain name where
      "name \<noteq> []" "CHR ''/'' \<notin> set name"
      "effs = [FsRead (public_path env @ ''/'' @ name)]
       \<or> effs = [Sleep 5, FsRead (public_path env @ ''/'' @ name)]
       \<or> effs = [FsRead (public_path env @ ''/'' @ name), FsRead (public_path env @ ''/404.html'')]"
      by blast
    moreover have "one_component_below_root env (public_path env @ ''/404.html'')"
      using one_component_below_rootI [of "''404.html''" env] by simp
    ultimately show "one_component_below_root env file_path"
      using one_component_below_rootI [of name env] by auto
  qed
  have dotdot: "?seg = ''..''
         \<and> (\<forall>bytes. fs (public_path env @ ''/..'') \<noteq> Some (RegularFile bytes)) \<longrightarrow>
        effs = [FsRead (public_path env @ ''/..''), FsRead (public_path env @ ''/404.html'')]
        \<and> res_status_code response = ''404''
        \<and> res_body response = read_to_string fs (public_path env @ ''/404.html'')"
  proof
    assume a: "?seg = ''..''
      \<and> (\<forall>bytes. fs (public_path env @ ''/..'') \<noteq> Some (RegularFile bytes))"
    then have none: "read_to_string fs (public_path env @ ''/..'') = None"
      by (auto simp: read_to_string_def split: option.split fs_entry.split)
    from a none assms(1) unfold
    show "effs = [FsRead (public_path env @ ''/..''), FsRead (public_path env @ ''/404.html'')]
        \<and> res_status_code response = ''404''
        \<and> res_body response = read_to_string fs (public_path env @ ''/404.html'')"
      by (auto simp: Response_new_fields simp del: One_nat_def)
  qed
  have same: "resource req' = Path s' \<and> CHR ''/'' \<in> set s'
         \<and> split_str s' (CHR ''/'') ! 1 = ?seg \<longrightarrow>
        StaticFileHandler_handle env fs req' = Inr (effs, response)"
  proof
    assume a: "resource req' = Path s' \<and> CHR ''/'' \<in> set s'
         \<and> split_str s' (CHR ''/'') ! 1 = ?seg"
    then have "StaticFileHandler_handle env fs req' = StaticFileHandler_handle env fs req"
      using static_handle_by_segment [of req' s' env fs] unfold by (simp del: One_nat_def)
    with assms(1) show "StaticFileHandler_handle env fs req' = Inr (effs, response)" by simp
  qed
  have index: "?seg \<in> {[], ''index.html''} \<longrightarrow>
        effs = [FsRead (public_path env @ ''/index.html'')]
        \<and> res_status_code response = ''200''
        \<and> res_body response = read_to_string fs (public_path env @ ''/index.html'')"
    using assms(1) unfold
    by (auto simp: Let_def Response_new_fields simp del: One_nat_def)
  have sleep: "?seg = ''sleep.html'' \<longrightarrow>
        effs = [Sleep 5, FsRead (public_path env @ ''/sleep.html'')]
        \<and> res_status_code response = ''200''
        \<and> res_body response = read_to_string fs (public_path env @ ''/sleep.html'')"
    using assms(1) unfold
    by (auto simp: Let_def Response_new_fields simp del: One_nat_def)
  have found: "?seg \<notin> {[], ''index.html'', ''sleep.html''}
         \<and> read_to_string fs (public_path env @ ''/'' @ ?seg) = Some contents \<longrightarrow>
        effs = [FsRead (public_path env @ ''/'' @ ?seg)]
        \<and> res_status_code response = ''200''
        \<and> res_body response = Some contents"
    using assms(1) unfold
    by (auto simp: Let_def Response_new_fields simp del: One_nat_def)
  have missing: "?seg \<notin> {[], ''index.html'', ''sleep.html''}
         \<and> read_to_string fs (public_path env @ ''/'' @ ?seg) = None \<longrightarrow>
        effs = [FsRead (public_path env @ ''/'' @ ?seg), FsRead (public_path env @ ''/404.html'')]
        \<and> res_status_code response = ''404''
        \<and> res_body response = read_to_string fs (public_path env @ ''/404.html'')"
    using assms(1) unfold
    by (auto simp: Let_def Response_new_fields simp del: One_nat_def)
  show ?thesis
    by (intro conjI) (rule slash reads dotdot same index sleep found missing)+
qed

lemmas static_example_defs = StaticFileHandler_handle_def NotFoundHandler_handle_def load_file_def
  public_path_def read_to_string_def example_env_def example_fs_def get_request_def
  Request_init_def content_type_of_def ends_with_def Let_def

lemma static_dotdot_example:
  "StaticFileHandler_handle example_env example_fs (get_request ''/../etc/passwd'')
     = Inr ([FsRead ''/srv/public/..'', FsRead ''/srv/public/404.html''],
            Response_new ''404'' None (Some ''<h2>NotFound</h2>''))"
  by (simp add: static_example_defs)

lemma static_later_dotdot_example:
  "StaticFileHandler_handle example_env example_fs (get_request ''/index.html/..'')
     = Inr ([FsRead ''/srv/public/index.html''],
            Response_new ''200'' (Some [''Content-Type'' \<mapsto> ''text/html''])
              (Some ''<h2>home</h2>''))"
  by (simp add: static_example_defs)

lemma static_other_file_example:
  "StaticFileHandler_handle example_env example_fs (get_request ''/404.html/../..'')
     = Inr ([FsRead ''/srv/public/404.html''],
            Response_new ''200'' (Some [''Content-Type'' \<mapsto> ''text/html''])
              (Some ''<h2>NotFound</h2>''))"
  by (simp add: static_example_defs)

text \<open>
  \<open>GET /../etc/passwd\<close> reads \<open>/srv/public/..\<close> and the 404 page and answers 404, as
  \<open>GET /..\<close> does; \<open>GET /index.html/..\<close> is answered like \<open>GET /index.html\<close>, and
  \<open>GET /404.html/../..\<close> with the contents of \<open>/srv/public/404.html\<close>.
\<close>

theorem static_handler_stays_in_root_witness:
  "StaticFileHandler_handle example_env example_fs (get_request ''/../etc/passwd'')
     = Inr ([FsRead ''/srv/public/..'', FsRead ''/srv/public/404.html''],
            Response_new ''404'' None (Some ''<h2>NotFound</h2>''))
   \<and> resource (get_request ''/../etc/passwd'') = Path ''/../etc/passwd''
   \<and> split_str ''/../etc/passwd'' (CHR ''/'') ! 1 = ''..''
   \<and> example_fs (public_path example_env @ ''/..'') = Some Directory
   \<and> one_component_below_root example_env ''/srv/public/404.html''
   \<and> res_status_code (Response_new ''404'' None (Some ''<h2>NotFound</h2>'')) = ''404''
   \<and> res_body (Response_new ''404'' None (Some ''<h2>NotFound</h2>''))
       = read_to_string example_fs ''/srv/public/404.html''
   \<and> split_str ''/..'' (CHR ''/'') ! 1 = split_str ''/../etc/passwd'' (CHR ''/'') ! 1
   \<and> StaticFileHandler_handle example_env example_fs (get_request ''/..'')
       = Inr ([FsRead ''/srv/public/..'', FsRead ''/srv/public/404.html''],
              Response_new ''404'' None (Some ''<h2>NotFound</h2>''))
   \<and> split_str ''/index.html'' (CHR ''/'') ! 1 = split_str ''/index.html/..'' (CHR ''/'') ! 1
   \<and> StaticFileHandler_handle example_env example_fs (get_request ''/index.html'')
       = Inr ([FsRead ''/srv/public/index.html''],
              Response_new ''200'' (Some [''Content-Type'' \<mapsto> ''text/html''])
                (Some ''<h2>home</h2>''))
   \<and> res_body (Response_new ''200'' (Some [''Content-Type'' \<mapsto> ''text/html''])
                (Some ''<h2>home</h2>''))
       = read_to_string example_fs ''/srv/public/index.html''
   \<and> split_str ''/404.html/../..'' (CHR ''/'') ! 1 \<notin> {[], ''index.html'', ''sleep.html''}
   \<and> read_to_string example_fs
         (public_path example_env @ ''/'' @ split_str ''/404.html/../..'' (CHR ''/'') ! 1)
       = Some ''<h2>NotFound</h2>''
   \<and> res_status_code (Response_new ''200'' (Some [''Content-Type'' \<mapsto> ''text/html''])
                (Some ''<h2>NotFound</h2>'')) = ''200''"
proof -
  have res: "\<And>p. resource (get_request p) = Path p"
    by (simp add: get_request_def Request_init_def)
  have root: "public_path example_env = ''/srv/public''"
    by (simp add: public_path_def example_env_def)
  have fs: "example_fs ''/srv/public/..'' = Some Directory"
    "read_to_string example_fs ''/srv/public/404.html'' = Some ''<h2>NotFound</h2>''"
    "read_to_string example_fs ''/srv/public/index.html'' = Some ''<h2>home</h2>''"
    by (simp_all add: example_fs_def read_to_string_def)
  have seg: "split_str ''/../etc/passwd'' (CHR ''/'') ! 1 = ''..''"
    "split_str ''/..'' (CHR ''/'') ! 1 = ''..''"
    "split_str ''/index.html'' (CHR ''/'') ! 1 = ''index.html''"
    "split_str ''/index.html/..'' (CHR ''/'') ! 1 = ''index.html''"
    "split_str ''/404.html/../..'' (CHR ''/'') ! 1 = ''404.html''"
    by simp_all
  note t1 = static_handler_stays_in_root [OF static_dotdot_example res,
      of "get_request ''/..''" "''/..''" "[]"]
  note t2 = static_handler_stays_in_root [OF static_later_dotdot_example res,
      of "get_request ''/index.html''" "''/index.html''" "[]"]
  note t3 = static_handler_stays_in_root [OF static_other_file_example res,
      of "get_request ''/404.html''" "''/404.html''" "''<h2>NotFound</h2>''"]
  from t1 have a: "one_component_below_root example_env ''/srv/public/404.html''"
    by simp
  from t1 have b: "res_status_code (Response_new ''404'' None (Some ''<h2>NotFound</h2>'')) = ''404''
      \<and> res_body (Response_new ''404'' None (Some ''<h2>NotFound</h2>''))
          = read_to_string example_fs ''/srv/public/404.html''"
    by (simp add: seg root fs)
  from t1 have c: "StaticFileHandler_handle example_env example_fs (get_request ''/..'')
       = Inr ([FsRead ''/srv/public/..'', FsRead ''/srv/public/404.html''],
              Response_new ''404'' None (Some ''<h2>NotFound</h2>''))"
    by (simp add: seg res)
  from t2 have d: "StaticFileHandler_handle example_env example_fs (get_request ''/index.html'')
       = Inr ([FsRead ''/srv/public/index.html''],
              Response_new ''200'' (Some [''Content-Type'' \<mapsto> ''text/html''])
                (Some ''<h2>home</h2>''))"
    by (simp add: seg res)
  from t2 have e: "res_body (Response_new ''200'' (Some [''Content-Type'' \<mapsto> ''text/html''])
                (Some ''<h2>home</h2>''))
       = read_to_string example_fs ''/srv/public/index.html''"
    by (simp add: seg root)
  from t3 have f: "res_status_code (Response_new ''200'' (Some [''Content-Type'' \<mapsto> ''text/html''])
                (Some ''<h2>NotFound</h2>'')) = ''200''"
    by (simp add: seg root fs)
  from a b c d e f show ?thesis
    by (simp add: static_dotdot_example res seg root fs)
qed

text \<open>
  The claim as stated fails for \<open>GET /index.html/..\<close>: the path has a \<open>..\<close> segment,
  and the answer is 200 with the home page, neither a 404 nor a rejection. The file
  read is inside the root directory.
\<close>

theorem dotdot_not_always_404_counterexample:
  "req_method (get_request ''/index.html/..'') = Get
   \<and> ''..'' \<in> set (split_str ''/index.html/..'' (CHR ''/''))
   \<and> StaticFileHandler_handle example_env example_fs (get_request ''/index.html/..'')
       = Inr ([FsRead ''/srv/public/index.html''],
              Response_new ''200'' (Some [''Content-Type'' \<mapsto> ''text/html''])
                (Some ''<h2>home</h2>''))
   \<and> res_status_code (Response_new ''200'' (Some [''Content-Type'' \<mapsto> ''text/html''])
                (Some ''<h2>home</h2>'')) = ''200''
   \<and> Router_route example_env example_fs (get_request ''/index.html/..'') example_stream
       = ([FsRead ''/srv/public/index.html''],
          Inr (example_stream\<lparr>written :=
                 ''HTTP/1.1 200 OK'' @ [CR, LF] @ ''Content-Length:13'' @ [CR, LF, CR, LF]
                 @ ''<h2>home</h2>''\<rparr>))"
  by (simp add: example_defs)

section \<open>The bytes of a response\<close>

lemma digit_char_code: "d < 10 \<Longrightarrow> (of_char (digit_char d) :: nat) = 48 + d"
proof -
  assume "d < 10"
  then have "d = 0 \<or> d = 1 \<or> d = 2 \<or> d = 3 \<or> d = 4 \<or> d = 5 \<or> d = 6 \<or> d = 7 \<or> d = 8 \<or> d = 9"
    by arith
  then show ?thesis by (auto simp: digit_char_def)
qed

lemma decimal_value_snoc:
  "decimal_value (ds @ [d]) = 10 * decimal_value ds + (of_char d - 48)"
  by (simp add: decimal_value_def)

lemma decimal_value_usize_to_string: "decimal_value (usize_to_string n) = n"
proof (induction n rule: usize_to_string.induct)
  case (1 n)
  show ?case
  proof (cases "n < 10")
    case True
    then show ?thesis
      by (simp add: usize_to_string.simps [of n] decimal_value_def digit_char_code)
  next
    case False
    then have "decimal_value (usize_to_string (n div 10)) = n div 10" using "1" by simp
    with False show ?thesis
      by (simp add: usize_to_string.simps [of n] decimal_value_snoc digit_char_code)
  qed
qed

lemma digits_usize_to_string: "list_all is_decimal_digit (usize_to_string n)"
proof (induction n rule: usize_to_string.induct)
  case (1 n)
  show ?case
  proof (cases "n < 10")
    case True
    then show ?thesis
      by (simp add: usize_to_string.simps [of n] is_decimal_digit_def digit_char_code)
  next
    case False
    with "1" show ?thesis
      by (simp add: usize_to_string.simps [of n] is_decimal_digit_def digit_char_code)
  qed
qed

text \<open>
  C7. The Content-Length line of a serialized response carries the decimal numeral of
  \<open>body().len()\<close>, the length of the body in bytes, and \<open>send\<close> writes exactly that
  serialization when the write succeeds. The first project's \<open>handle_request\<close>
  formats \<open>contents.len()\<close> in the same way.
\<close>

theorem content_length_is_byte_length:
  "String_from_Response r =
     res_protocol_version r @ '' '' @ res_status_code r @ '' '' @ res_status_text r @ [CR, LF]
     @ ''Content-Length:'' @ usize_to_string (length (Response_body r)) @ [CR, LF, CR, LF]
     @ Response_body r
   \<and> list_all is_decimal_digit (usize_to_string (length (Response_body r)))
   \<and> decimal_value (usize_to_string (length (Response_body r))) = length (Response_body r)
   \<and> (writable stream \<longrightarrow>
        send r stream = Inr (stream\<lparr>written := written stream @ String_from_Response r\<rparr>))
   \<and> format_response status_line contents =
        status_line @ [CR, LF] @ ''Content-Length: '' @ usize_to_string (length contents)
        @ [CR, LF, CR, LF] @ contents
   \<and> decimal_value (usize_to_string (length contents)) = length contents
   \<and> (res_body r = Some b \<longrightarrow>
        String_from_Response r =
          res_protocol_version r @ '' '' @ res_status_code r @ '' '' @ res_status_text r
          @ [CR, LF] @ ''Content-Length:'' @ usize_to_string (length b) @ [CR, LF, CR, LF] @ b)
   \<and> (res_body r = None \<longrightarrow>
        String_from_Response r =
          res_protocol_version r @ '' '' @ res_status_code r @ '' '' @ res_status_text r
          @ [CR, LF] @ ''Content-Length:0'' @ [CR, LF, CR, LF])
   \<and> String_from_Response (Response_new code hdrs (Some b)) =
        ''HTTP/1.1 '' @ code @ '' '' @ status_text_of code @ [CR, LF]
        @ ''Content-Length:'' @ usize_to_string (length b) @ [CR, LF, CR, LF] @ b
   \<and> list_all is_decimal_digit (usize_to_string (length b))
   \<and> decimal_value (usize_to_string (length b)) = length b"
proof -
  have zero: "usize_to_string 0 = ''0''"
    by (simp add: usize_to_string.simps [of 0] digit_char_def)
  have some: "res_body r = Some b \<longrightarrow> Response_body r = b"
    by (simp add: Response_body_def)
  have none: "res_body r = None \<longrightarrow> Response_body r = []"
    by (simp add: Response_body_def)
  have new: "Response_body (Response_new code hdrs (Some b)) = b"
    by (simp add: Response_body_def Response_new_fields)
  show ?thesis
    using some none
    by (simp add: String_from_Response_def new zero Response_new_fields
        decimal_value_usize_to_string digits_usize_to_string send_def write_all_def
        format_response_def)
qed

text \<open>
  A body of one character in two bytes (U+00E9): the value sent is 2, the number of
  bytes, not 1, the number of characters. A response without a body, as the Not-Found
  handler builds when the 404 page is missing, is sent with the value 0.
\<close>

theorem content_length_is_byte_length_witness:
  "writable example_stream
   \<and> valid_utf8 [CHR 0xC3, CHR 0xA9]
   \<and> char_count [CHR 0xC3, CHR 0xA9] = 1
   \<and> length [CHR 0xC3, CHR 0xA9] = 2
   \<and> send (Response_new ''200'' None (Some [CHR 0xC3, CHR 0xA9])) example_stream
       = Inr (example_stream\<lparr>written :=
            ''HTTP/1.1 200 OK'' @ [CR, LF] @ ''Content-Length:2'' @ [CR, LF, CR, LF]
            @ [CHR 0xC3, CHR 0xA9]\<rparr>)
   \<and> decimal_value ''2'' = 2
   \<and> res_body (Response_new ''200'' None (Some [CHR 0xC3, CHR 0xA9])) = Some [CHR 0xC3, CHR 0xA9]
   \<and> String_from_Response (Response_new ''200'' None (Some [CHR 0xC3, CHR 0xA9]))
       = ''HTTP/1.1 200 OK'' @ [CR, LF] @ ''Content-Length:2'' @ [CR, LF, CR, LF]
         @ [CHR 0xC3, CHR 0xA9]
   \<and> res_body (Response_new ''404'' None None) = None
   \<and> String_from_Response (Response_new ''404'' None None)
       = ''HTTP/1.1 404 Not Found'' @ [CR, LF] @ ''Content-Length:0'' @ [CR, LF, CR, LF]"
proof -
  let ?b = "[CHR 0xC3, CHR 0xA9]"
  let ?r1 = "Response_new ''200'' None (Some ?b)"
  let ?r2 = "Response_new ''404'' None None"
  have two: "usize_to_string (Suc (Suc 0)) = ''2''"
    by (simp add: usize_to_string.simps [of "Suc (Suc 0)"] digit_char_def numeral_2_eq_2)
  note t1 = content_length_is_byte_length
    [of ?r1 example_stream "[]" "[]" ?b "''200''" None]
  note t2 = content_length_is_byte_length
    [of ?r2 example_stream "[]" "[]" "[]" "''404''" None]
  have w: "writable example_stream" by (simp add: example_stream_def)
  have b1: "res_body ?r1 = Some ?b" and b2: "res_body ?r2 = None"
    by (simp_all add: Response_new_fields)
  from t1 have "res_body ?r1 = Some ?b \<longrightarrow>
      String_from_Response ?r1 =
        res_protocol_version ?r1 @ '' '' @ res_status_code ?r1 @ '' '' @ res_status_text ?r1
        @ [CR, LF] @ ''Content-Length:'' @ usize_to_string (length ?b) @ [CR, LF, CR, LF] @ ?b"
    by blast
  with b1 have "String_from_Response ?r1 =
        res_protocol_version ?r1 @ '' '' @ res_status_code ?r1 @ '' '' @ res_status_text ?r1
        @ [CR, LF] @ ''Content-Length:'' @ usize_to_string (length ?b) @ [CR, LF, CR, LF] @ ?b"
    by blast
  then have a: "String_from_Response ?r1
       = ''HTTP/1.1 200 OK'' @ [CR, LF] @ ''Content-Length:2'' @ [CR, LF, CR, LF] @ ?b"
    by (simp add: two Response_new_fields status_text_of_def)
  from t1 have "writable example_stream \<longrightarrow>
      send ?r1 example_stream
        = Inr (example_stream\<lparr>written := written example_stream @ String_from_Response ?r1\<rparr>)"
    by blast
  with w a have b: "send ?r1 example_stream
       = Inr (example_stream\<lparr>written :=
            ''HTTP/1.1 200 OK'' @ [CR, LF] @ ''Content-Length:2'' @ [CR, LF, CR, LF] @ ?b\<rparr>)"
    by (simp add: example_stream_def)
  from t2 have "res_body ?r2 = None \<longrightarrow>
      String_from_Response ?r2 =
        res_protocol_version ?r2 @ '' '' @ res_status_code ?r2 @ '' '' @ res_status_text ?r2
        @ [CR, LF] @ ''Content-Length:0'' @ [CR, LF, CR, LF]"
    by blast
  with b2 have "String_from_Response ?r2 =
        res_protocol_version ?r2 @ '' '' @ res_status_code ?r2 @ '' '' @ res_status_text ?r2
        @ [CR, LF] @ ''Content-Length:0'' @ [CR, LF, CR, LF]"
    by blast
  then have c: "String_from_Response ?r2
       = ''HTTP/1.1 404 Not Found'' @ [CR, LF] @ ''Content-Length:0'' @ [CR, LF, CR, LF]"
    by (simp add: Response_new_fields status_text_of_def)
  have d: "decimal_value ''2'' = 2" by (simp add: decimal_value_def)
  have e: "valid_utf8 ?b" "char_count ?b = 1" by (simp_all add: char_count_def)
  from a b c d e w b1 b2 show ?thesis by simp
qed

text \<open>
  C5. The claim says that the headers supplied to a response are serialized after the
  Content-Length line. They are not: the serialization does not depend on the field
  \<open>headers\<close> at all, and a response built with a Content-Type header is written
  without it.
\<close>

theorem serialized_response_omits_headers:
  "String_from_Response (r\<lparr>res_headers := h\<rparr>) = String_from_Response r
   \<and> res_headers (Response_new ''200'' (Some [''Content-Type'' \<mapsto> ''text/css'']) (Some ''h2{}''))
       = Some [''Content-Type'' \<mapsto> ''text/css'']
   \<and> send (Response_new ''200'' (Some [''Content-Type'' \<mapsto> ''text/css'']) (Some ''h2{}''))
        example_stream
       = Inr (example_stream\<lparr>written :=
            ''HTTP/1.1 200 OK'' @ [CR, LF] @ ''Content-Length:4'' @ [CR, LF, CR, LF] @ ''h2{}''\<rparr>)
   \<and> \<not> contains (String_from_Response
          (Response_new ''200'' (Some [''Content-Type'' \<mapsto> ''text/css'']) (Some ''h2{}'')))
        ''Content-Type''"
  by (simp add: example_defs Response_body_def starts_with_def)

section \<open>Method and version tokens\<close>

text \<open>
  C8 (as amended). \<open>Method::from\<close> maps exactly the tokens GET, POST, PUT, PATCH and
  DELETE to their variants and every other string to \<open>Uninitialized\<close>;
  \<open>ProtocolVersion::from\<close> maps exactly HTTP/1.1 and HTTP/2 to their variants and every
  other string to \<open>Uninitialized\<close>. Both are total.
\<close>

theorem method_and_version_tokens:
  "(Method_from s = Get \<longleftrightarrow> s = ''GET'')
   \<and> (Method_from s = Post \<longleftrightarrow> s = ''POST'')
   \<and> (Method_from s = Put \<longleftrightarrow> s = ''PUT'')
   \<and> (Method_from s = Patch \<longleftrightarrow> s = ''PATCH'')
   \<and> (Method_from s = Delete \<longleftrightarrow> s = ''DELETE'')
   \<and> (Method_from s = Method_Uninitialized \<longleftrightarrow>
        s \<notin> {''GET'', ''POST'', ''PUT'', ''PATCH'', ''DELETE''})
   \<and> (ProtocolVersion_from v = HTTP1_1 \<longleftrightarrow> v = ''HTTP/1.1'')
   \<and> (ProtocolVersion_from v = HTTP2 \<longleftrightarrow> v = ''HTTP/2'')
   \<and> (ProtocolVersion_from v = ProtocolVersion_Uninitialized \<longleftrightarrow>
        v \<notin> {''HTTP/1.1'', ''HTTP/2''})"
  by (simp add: Method_from_def ProtocolVersion_from_def)

lemma split_whitespace_head:
  "split_whitespace ''HEAD / HTTP/1.0'' = [''HEAD'', ''/'', ''HTTP/1.0'']"
  by (simp add: split_whitespace_def ws_prefix_len_def white_space_def starts_with_def)

text \<open>
  The claim as stated fails: the enums have no variant for HEAD, CONNECT, OPTIONS,
  TRACE or HTTP/1.0, and these tokens are mapped like any unknown token.
\<close>

theorem head_and_http10_counterexample:
  "Method_from ''HEAD'' = Method_Uninitialized
   \<and> Method_from ''CONNECT'' = Method_Uninitialized
   \<and> Method_from ''OPTIONS'' = Method_Uninitialized
   \<and> Method_from ''TRACE'' = Method_Uninitialized
   \<and> ProtocolVersion_from ''HTTP/1.0'' = ProtocolVersion_Uninitialized
   \<and> Method_from ''HEAD'' = Method_from ''no-such-method''
   \<and> ProtocolVersion_from ''HTTP/1.0'' = ProtocolVersion_from ''no-such-version''
   \<and> Request_from ''HEAD / HTTP/1.0'' = Inr (Request_init\<lparr>resource := Path ''/''\<rparr>)"
  by (simp add: Method_from_def ProtocolVersion_from_def Request_from_def lines_def
      process_req_line_def split_whitespace_head starts_with_def Request_init_def)

section \<open>Parsing a request\<close>

lemma process_req_line_Inl:
  "process_req_line line = Inl p \<longleftrightarrow> p = UnwrapNone \<and> length (split_whitespace line) < 3"
  by (auto simp: process_req_line_def split: list.splits)

lemma parse_lines_panics:
  "parse_lines ls req = Inl p \<longleftrightarrow> p = UnwrapNone \<and> list_ex malformed_request_line ls"
proof (induction ls arbitrary: req)
  case Nil
  show ?case by simp
next
  case (Cons line rest)
  show ?case
  proof (cases "contains line ''HTTP''")
    case True
    show ?thesis
    proof (cases "process_req_line line")
      case (Inl q)
      then have "q = UnwrapNone \<and> length (split_whitespace line) < 3"
        by (simp add: process_req_line_Inl)
      with True Inl show ?thesis by (auto simp: malformed_request_line_def)
    next
      case (Inr t)
      then have "\<not> length (split_whitespace line) < 3"
        using process_req_line_Inl [of line UnwrapNone] by auto
      with True Inr Cons.IH show ?thesis
        by (cases t) (simp add: malformed_request_line_def)
    qed
  next
    case False
    with Cons.IH show ?thesis
      by (simp add: malformed_request_line_def split: prod.split)
  qed
qed

lemma lines_from_no_LF:
  "LF \<notin> set s \<Longrightarrow> lines_from cur s = (if cur @ s = [] then [] else [cur @ s])"
  by (induction s arbitrary: cur) auto

lemma contains_subset: "contains s pat \<Longrightarrow> set pat \<subseteq> set s"
proof (induction s)
  case Nil
  then show ?case by simp
next
  case (Cons c cs)
  from Cons.prems have "starts_with (c # cs) pat \<or> contains cs pat" by simp
  then show ?case
  proof
    assume "starts_with (c # cs) pat"
    then have "pat = take (length pat) (c # cs)" by (simp add: starts_with_def)
    then have "set pat \<subseteq> set (c # cs)" by (metis set_take_subset)
    then show ?thesis .
  next
    assume "contains cs pat"
    with Cons.IH show ?thesis by auto
  qed
qed

lemma parse_zero_bytes:
  assumes "0 < n"
  shows "Request_from (replicate n NUL) = Inr (Request_init\<lparr>body := replicate n NUL\<rparr>)"
proof -
  have l: "lines (replicate n NUL) = [replicate n NUL]"
    using assms by (simp add: lines_def lines_from_no_LF)
  have "\<not> contains (replicate n NUL) ''HTTP''"
    using contains_subset [of "replicate n NUL" "''HTTP''"] by auto
  moreover have "\<not> contains (replicate n NUL) '':''"
    using contains_subset [of "replicate n NUL" "'':''"] by auto
  ultimately show ?thesis using assms by (simp add: Request_from_def l)
qed

text \<open>
  C2 (as amended). Parsing the empty string gives the request with every field
  \<open>Uninitialized\<close> or empty; parsing a buffer of zero bytes gives the same request but
  for the body, which is the zero bytes. A line that contains \<open>HTTP\<close> and has fewer
  than three words is not degraded: the third \<open>unwrap\<close> of \<open>process_req_line\<close>
  panics, and so does \<open>Request::from\<close>. Parsing succeeds on every other input.
\<close>

theorem parse_degenerate_input:
  "Request_from [] = Inr Request_init
   \<and> (0 < n \<longrightarrow> Request_from (replicate n NUL) = Inr (Request_init\<lparr>body := replicate n NUL\<rparr>))
   \<and> (length (split_whitespace line) < 3 \<longrightarrow> process_req_line line = Inl UnwrapNone)
   \<and> (list_ex malformed_request_line (lines s) \<longrightarrow> Request_from s = Inl UnwrapNone)
   \<and> (\<not> list_ex malformed_request_line (lines s) \<longrightarrow> (\<exists>req. Request_from s = Inr req))"
proof (intro conjI impI)
  show "Request_from [] = Inr Request_init" by (simp add: Request_from_def lines_def)
next
  assume "0 < n"
  then show "Request_from (replicate n NUL) = Inr (Request_init\<lparr>body := replicate n NUL\<rparr>)"
    by (rule parse_zero_bytes)
next
  assume "length (split_whitespace line) < 3"
  then show "process_req_line line = Inl UnwrapNone" by (simp add: process_req_line_Inl)
next
  assume "list_ex malformed_request_line (lines s)"
  then show "Request_from s = Inl UnwrapNone"
    by (simp add: Request_from_def parse_lines_panics)
next
  assume "\<not> list_ex malformed_request_line (lines s)"
  then have "\<And>p. Request_from s \<noteq> Inl p" by (simp add: Request_from_def parse_lines_panics)
  then show "\<exists>req. Request_from s = Inr req" by (cases "Request_from s") auto
qed

lemma split_whitespace_two_tokens:
  "split_whitespace ''GET HTTP/1.1'' = [''GET'', ''HTTP/1.1'']"
  by (simp add: split_whitespace_def ws_prefix_len_def white_space_def starts_with_def)

text \<open>
  The buffer of a connection that sent nothing, the request line \<open>GET HTTP/1.1\<close> with
  two words, and a request line with three.
\<close>

theorem parse_degenerate_input_witness:
  "(0::nat) < 1024
   \<and> Request_from (replicate 1024 NUL) = Inr (Request_init\<lparr>body := replicate 1024 NUL\<rparr>)
   \<and> length (split_whitespace ''GET HTTP/1.1'') < 3
   \<and> process_req_line ''GET HTTP/1.1'' = Inl UnwrapNone
   \<and> list_ex malformed_request_line (lines ''GET HTTP/1.1'')
   \<and> Request_from ''GET HTTP/1.1'' = Inl UnwrapNone
   \<and> \<not> list_ex malformed_request_line (lines ''GET foo HTTP/1.1'')
   \<and> (\<exists>req. Request_from ''GET foo HTTP/1.1'' = Inr req)"
  using parse_degenerate_input [of 1024 "''GET HTTP/1.1''" "''GET HTTP/1.1''"]
    parse_degenerate_input [of 1024 "''GET HTTP/1.1''" "''GET foo HTTP/1.1''"]
  by (simp add: malformed_request_line_def lines_def split_whitespace_two_tokens
      split_whitespace_get_foo starts_with_def)

text \<open>
  The claim as stated fails for the request line \<open>GET HTTP/1.1\<close>: it contains the
  protocol token and has two words, and parsing it panics.
\<close>

theorem short_request_line_counterexample:
  "contains ''GET HTTP/1.1'' ''HTTP''
   \<and> split_whitespace ''GET HTTP/1.1'' = [''GET'', ''HTTP/1.1'']
   \<and> Request_from ''GET HTTP/1.1'' = Inl UnwrapNone"
  by (simp add: Request_from_def lines_def process_req_line_def split_whitespace_two_tokens
      starts_with_def)


lemma contains_single: "contains s [c] \<longleftrightarrow> c \<in> set s"
  by (induction s) (auto simp: starts_with_def)

lemma process_header_one_colon:
  assumes "CHR '':'' \<notin> set k" and "CHR '':'' \<notin> set v"
  shows "process_header (k @ '':'' @ v) = (trim k, trim v)"
  using assms
  by (simp add: process_header_def split_str_append_sep split_str_no_sep)

lemma parse_header_line:
  assumes "\<not> contains (k @ '':'' @ v) ''HTTP''"
    and "CHR '':'' \<notin> set k" and "CHR '':'' \<notin> set v"
  shows "parse_lines ((k @ '':'' @ v) # rest) req =
           parse_lines rest (req\<lparr>headers := (headers req)(trim k \<mapsto> trim v)\<rparr>)"
proof -
  have "contains (k @ '':'' @ v) '':''" by (simp add: contains_single)
  with assms(1) process_header_one_colon [OF assms(2,3)] show ?thesis by simp
qed

text \<open>
  C9 (as amended). For every line that does not contain \<open>HTTP\<close> and has exactly one
  \<open>:\<close>, the parser takes the text before the \<open>:\<close> as the key and the text after it as
  the value, trims both, and stores the pair in the header map in place of whatever the
  key was bound to: of two such lines with the same key, the earlier one leaves no
  trace.
\<close>

theorem header_line_parsed:
  assumes "\<not> contains (k @ '':'' @ v) ''HTTP''"
    and "CHR '':'' \<notin> set k" and "CHR '':'' \<notin> set v"
  shows "process_header (k @ '':'' @ v) = (trim k, trim v)
    \<and> parse_lines ((k @ '':'' @ v) # rest) req =
         parse_lines rest (req\<lparr>headers := (headers req)(trim k \<mapsto> trim v)\<rparr>)
    \<and> (\<not> contains (k' @ '':'' @ v') ''HTTP'' \<and> CHR '':'' \<notin> set k' \<and> CHR '':'' \<notin> set v'
         \<and> trim k' = trim k \<longrightarrow>
        parse_lines ((k' @ '':'' @ v') # (k @ '':'' @ v) # rest) req =
          parse_lines ((k @ '':'' @ v) # rest) req)"
proof (intro conjI impI)
  show "process_header (k @ '':'' @ v) = (trim k, trim v)"
    using assms(2,3) by (rule process_header_one_colon)
  show "parse_lines ((k @ '':'' @ v) # rest) req =
         parse_lines rest (req\<lparr>headers := (headers req)(trim k \<mapsto> trim v)\<rparr>)"
    using assms by (rule parse_header_line)
next
  assume a: "\<not> contains (k' @ '':'' @ v') ''HTTP'' \<and> CHR '':'' \<notin> set k' \<and> CHR '':'' \<notin> set v'
         \<and> trim k' = trim k"
  then have "parse_lines ((k' @ '':'' @ v') # (k @ '':'' @ v) # rest) req =
      parse_lines ((k @ '':'' @ v) # rest) (req\<lparr>headers := (headers req)(trim k \<mapsto> trim v')\<rparr>)"
    using parse_header_line [of k' v' "(k @ '':'' @ v) # rest" req] by simp
  also have "\<dots> = parse_lines rest (req\<lparr>headers := (headers req)(trim k \<mapsto> trim v)\<rparr>)"
    using parse_header_line [OF assms, of rest "req\<lparr>headers := (headers req)(trim k \<mapsto> trim v')\<rparr>"]
    by simp
  also have "\<dots> = parse_lines ((k @ '':'' @ v) # rest) req"
    using parse_header_line [OF assms, of rest req] by simp
  finally show "parse_lines ((k' @ '':'' @ v') # (k @ '':'' @ v) # rest) req =
          parse_lines ((k @ '':'' @ v) # rest) req" .
qed

lemmas trim_defs = trim_def trim_start.simps trim_end.simps ws_prefix_len_def ws_suffix_len_def
  white_space_def starts_with_def ends_with_def

lemma trim_examples:
  "trim '' Host '' = ''Host''" "trim ''Host'' = ''Host''"
  "trim '' localhost '' = ''localhost''" "trim '' example.org'' = ''example.org''"
  "trim '' localhost'' = ''localhost''" "trim '' localhost:3000'' = ''localhost:3000''"
  by (simp_all add: trim_defs)

text \<open>The lines \<open>Host: example.org\<close> and then \<open> Host : localhost \<close>.\<close>

theorem header_line_parsed_witness:
  "\<not> contains ('' Host '' @ '':'' @ '' localhost '') ''HTTP''
   \<and> CHR '':'' \<notin> set '' Host '' \<and> CHR '':'' \<notin> set '' localhost ''
   \<and> process_header '' Host : localhost '' = (''Host'', ''localhost'')
   \<and> \<not> contains (''Host'' @ '':'' @ '' example.org'') ''HTTP''
   \<and> CHR '':'' \<notin> set ''Host'' \<and> CHR '':'' \<notin> set '' example.org''
   \<and> trim ''Host'' = trim '' Host ''
   \<and> parse_lines [''Host: example.org'', '' Host : localhost ''] Request_init
       = Inr (Request_init\<lparr>headers := [''Host'' \<mapsto> ''localhost'']\<rparr>)"
  using header_line_parsed [of "'' Host ''" "'' localhost ''" "[]" Request_init "''Host''" "'' example.org''"]
  by (simp add: starts_with_def trim_examples process_header_def Request_init_def)

text \<open>
  The claim as stated fails for \<open>Host: localhost:3000\<close>: splitting at the first \<open>:\<close>
  gives the value \<open>localhost:3000\<close>, the parser stores \<open>localhost\<close>, the piece between
  the first and the second \<open>:\<close>. It also fails for a header line that contains \<open>HTTP\<close>,
  which is parsed as a request line.
\<close>

theorem header_second_colon_counterexample:
  "contains ''Host: localhost:3000'' '':''
   \<and> \<not> contains ''Host: localhost:3000'' ''HTTP''
   \<and> spec_process_header ''Host: localhost:3000'' = (''Host'', ''localhost:3000'')
   \<and> process_header ''Host: localhost:3000'' = (''Host'', ''localhost'')
   \<and> parse_lines [''Host: localhost:3000''] Request_init
       = Inr (Request_init\<lparr>headers := [''Host'' \<mapsto> ''localhost'']\<rparr>)
   \<and> contains ''Upgrade: HTTP/2'' '':''
   \<and> parse_lines [''Upgrade: HTTP/2''] Request_init = Inl UnwrapNone"
  by (simp add: spec_process_header_def process_header_def process_req_line_def
      split_whitespace_def trim_defs Request_init_def)

section \<open>Dropping the pool\<close>

lemma drop_workers_new:
  "fst (drop_workers (map Worker_new [a..<b]) :: 'w main_op list \<times> Worker list) = map Join [a..<b]"
proof (induction "b - a" arbitrary: a)
  case 0
  then show ?case by simp
next
  case (Suc k)
  then have lt: "a < b" and k: "k = b - Suc a" by simp_all
  have "fst (drop_workers (map Worker_new [Suc a..<b]) :: 'w main_op list \<times> Worker list)
      = map Join [Suc a..<b]"
    using Suc.hyps(1) [OF k] .
  with lt show ?case
    by (auto simp: upt_conv_Cons Worker_new_def split: prod.split)
qed

lemma drop_new_pool:
  assumes "ThreadPool_new n = Inr pool"
  shows "0 < n \<and> length (workers pool) = n
       \<and> fst (ThreadPool_drop pool :: 'w main_op list \<times> ThreadPool) = map Join [0..<n]"
proof -
  from assms have n: "0 < n" and p: "pool = \<lparr>workers = map Worker_new [0..<n]\<rparr>"
    by (auto simp: ThreadPool_new_def split: if_splits)
  have "fst (ThreadPool_drop pool :: 'w main_op list \<times> ThreadPool)
      = fst (drop_workers (workers pool) :: 'w main_op list \<times> Worker list)"
    by (simp add: ThreadPool_drop_def split: prod.split)
  with n p show ?thesis by (simp add: drop_workers_new)
qed


lemma waiting_worker_step:
  assumes "waiting_in_drop n s" and "worker_step i s = Some s'"
  shows "waiting_in_drop n s'"
proof -
  from assms(2) have run: "i < length (threads s)" "threads s ! i = Running"
    by (auto simp: worker_step_def split: if_splits)
  show ?thesis
  proof (cases "queue s")
    case Nil
    with assms(2) run show ?thesis by (simp add: worker_step_def)
  next
    case (Cons m q)
    with assms(1) have m: "m \<noteq> Exit" and q: "Exit \<notin> set q"
      by (auto simp: waiting_in_drop_def)
    then obtain job where job: "m = NewTask job" by (cases m) auto
    have upd: "\<And>p. Finished \<notin> set ((threads s)[i := Panicked p])"
      using assms(1) set_update_subset_insert [of "threads s" i]
      by (fastforce simp: waiting_in_drop_def)
    from assms Cons job run q upd show ?thesis
      by (auto simp: worker_step_def waiting_in_drop_def split: sum.splits)
  qed
qed

lemma waiting_main_step:
  assumes "waiting_in_drop n s" and "0 < n" and "main_step s = Some s'"
  shows "waiting_in_drop n s'"
proof -
  from assms(3) obtain ops where ops: "main s = Inr ops"
    by (cases "main s") (auto simp: main_step_def)
  with assms(1) have m: "main s = Inr (Join 0 # map Join [1..<n])"
    using assms(2) by (simp add: waiting_in_drop_def upt_conv_Cons)
  from assms(1,2) have "0 < length (threads s)"
    by (simp add: waiting_in_drop_def)
  then have "threads s ! 0 \<in> set (threads s)" by (rule nth_mem)
  moreover from assms(1) have "Finished \<notin> set (threads s)"
    by (simp add: waiting_in_drop_def)
  ultimately have nf: "threads s ! 0 \<noteq> Finished" by metis
  from assms m nf show ?thesis
    by (auto simp: main_step_def waiting_in_drop_def split: if_splits thread_state.splits)
qed

lemma waiting_reachable:
  assumes "reachable s s'" and "waiting_in_drop n s" and "0 < n"
  shows "waiting_in_drop n s'"
  using assms
proof (induction rule: reachable.induct)
  case (start s)
  then show ?case by simp
next
  case (next_step s s' s'')
  then have w: "waiting_in_drop n s'" by simp
  from next_step.hyps(2) show ?case
  proof (cases rule: step.cases)
    case (worker i)
    with w show ?thesis by (rule waiting_worker_step)
  next
    case owner
    with w next_step.prems(2) show ?thesis by (rule waiting_main_step)
  qed
qed

text \<open>
  C3. The claim says that teardown sends one shutdown signal per worker before joining.
  \<open>drop\<close> sends nothing: for a pool of \<open>n\<close> workers its operations are the \<open>n\<close> joins
  and no \<open>Send\<close>. So if no \<open>Exit\<close> is in the channel when the pool is dropped, then
  in every state the system can reach no worker has left its receive loop, no \<open>Exit\<close>
  has been sent, and \<open>drop\<close> has not returned: it waits in its first join, or has
  panicked there because that worker had panicked.
\<close>

theorem drop_never_signals_workers:
  assumes "ThreadPool_new n = Inr pool"
    and "Exit \<notin> set q"
    and "reachable (pool_dropping pool q (w :: 'w)) s"
  shows "fst (ThreadPool_drop pool :: 'w main_op list \<times> ThreadPool) = map Join [0..<n]
       \<and> main s \<noteq> Inr []
       \<and> Finished \<notin> set (threads s)
       \<and> Exit \<notin> set (queue s)"
proof -
  have n: "0 < n" and len: "length (workers pool) = n"
    using drop_new_pool [OF assms(1)] by blast+
  have ops: "fst (ThreadPool_drop pool :: 'w main_op list \<times> ThreadPool) = map Join [0..<n]"
    using drop_new_pool [OF assms(1)] by blast
  have "waiting_in_drop n (pool_dropping pool q w)"
    using assms(2) len ops by (simp add: waiting_in_drop_def pool_dropping_def)
  from waiting_reachable [OF assms(3) this n] have "waiting_in_drop n s" .
  with n ops show ?thesis by (auto simp: waiting_in_drop_def upt_conv_Cons)
qed

lemma five_workers: "ThreadPool_new 5 = Inr \<lparr>workers = map Worker_new [0, 1, 2, 3, 4]\<rparr>"
  by (simp add: ThreadPool_new_def upt_conv_Cons eval_nat_numeral)

text \<open>
  The pool of five workers that \<open>listen\<close> creates before it binds the socket,
  dropped with an empty channel (as when the bind fails): the operations of \<open>drop\<close>
  are five joins, and neither the owning thread nor a worker can take a step.
\<close>

theorem drop_never_signals_workers_witness:
  "ThreadPool_new 5 = Inr \<lparr>workers = map Worker_new [0, 1, 2, 3, 4]\<rparr>
   \<and> Exit \<notin> set ([] :: unit TaskMessage list)
   \<and> reachable (pool_dropping \<lparr>workers = map Worker_new [0, 1, 2, 3, 4]\<rparr> [] ())
        (pool_dropping \<lparr>workers = map Worker_new [0, 1, 2, 3, 4]\<rparr> [] ())
   \<and> fst (ThreadPool_drop \<lparr>workers = map Worker_new [0, 1, 2, 3, 4]\<rparr> :: unit main_op list \<times> ThreadPool)
       = [Join 0, Join 1, Join 2, Join 3, Join 4]
   \<and> main (pool_dropping \<lparr>workers = map Worker_new [0, 1, 2, 3, 4]\<rparr> [] ()) \<noteq> Inr []
   \<and> main_step (pool_dropping \<lparr>workers = map Worker_new [0, 1, 2, 3, 4]\<rparr> [] ()) = None
   \<and> worker_step 0 (pool_dropping \<lparr>workers = map Worker_new [0, 1, 2, 3, 4]\<rparr> [] ()) = None"
  using drop_never_signals_workers [OF five_workers, of "[]" "()"
      "pool_dropping \<lparr>workers = map Worker_new [0, 1, 2, 3, 4]\<rparr> [] ()"]
    five_workers reachable.start [of "pool_dropping \<lparr>workers = map Worker_new [0, 1, 2, 3, 4]\<rparr> [] ()"]
  by (simp add: upt_conv_Cons main_step_def worker_step_def pool_dropping_def ThreadPool_drop_def
      Worker_new_def eval_nat_numeral)

section \<open>A connection that fails\<close>

lemma send_unwrap_unwritable:
  "\<not> writable stream \<Longrightarrow> snd (send_unwrap er stream) = Inl (UnwrapErr IoError)"
  by (simp add: send_unwrap_def send_def write_all_def split: prod.split)

lemma Router_route_unwritable:
  assumes "\<not> writable stream"
  shows "\<exists>p. snd (Router_route env fs req stream) = Inl p"
proof (cases "req_method req = Get")
  case True
  obtain s where s: "resource req = Path s" by (cases "resource req") auto
  show ?thesis
  proof (cases "length (split_str s (CHR ''/'')) \<le> 1")
    case short: True
    with True s show ?thesis by (simp add: Router_route_def)
  next
    case False
    with True s assms show ?thesis
      by (auto simp: Router_route_def Let_def send_unwrap_unwritable split: sum.split)
  qed
next
  case False
  with assms show ?thesis
    by (simp add: Router_route_def handle_def send_unwrap_unwritable)
qed

lemma read_failure_panics:
  "incoming stream = Inl e \<Longrightarrow> handle_http_request env fs stream = ([], Inl (UnwrapErr e))"
  by (simp add: handle_http_request_def read_buffer_def)

lemma write_failure_panics:
  assumes "\<not> writable stream"
  shows "\<exists>p. snd (handle_http_request env fs stream) = Inl p"
  using Router_route_unwritable [OF assms]
  by (auto simp: handle_http_request_def split: sum.split)

lemma worker_runs_panicking_job:
  assumes "snd (handle_http_request env fs stream) = Inl p"
    and "i < length (threads s)" and "threads s ! i = Running"
    and "queue s = NewTask (connection_job env fs stream) # q"
  shows "worker_step i s = Some (s\<lparr>queue := q, threads := (threads s)[i := Panicked p]\<rparr>)"
proof -
  from assms(1) have "connection_job env fs stream (world s) = Inl p"
    by (cases "handle_http_request env fs stream") (simp add: connection_job_def)
  with assms(2-4) show ?thesis by (simp add: worker_step_def)
qed

text \<open>
  C4 (as amended). A failure to read from or to write to a connection is not caught:
  \<open>handle_http_request\<close> panics (on a failed read at once, with nothing read from the
  file system), and the worker thread that runs the job ends with that panic. The step
  takes the job from the channel and leaves the rest of the channel, the other
  workers and the accepting thread as they were.
\<close>

theorem connection_failure_ends_worker:
  assumes "incoming stream = Inl e \<or> \<not> writable stream"
    and "i < length (threads s)" and "threads s ! i = Running"
    and "queue s = NewTask (connection_job env fs stream) # q"
  shows "(\<exists>p. snd (handle_http_request env fs stream) = Inl p
            \<and> worker_step i s = Some (s\<lparr>queue := q, threads := (threads s)[i := Panicked p]\<rparr>))
       \<and> (incoming stream = Inl e \<longrightarrow>
            handle_http_request env fs stream = ([], Inl (UnwrapErr e)))"
proof -
  from assms(1) obtain p where p: "snd (handle_http_request env fs stream) = Inl p"
    using read_failure_panics [of stream e env fs] write_failure_panics [of stream env fs]
    by auto
  from worker_runs_panicking_job [OF p assms(2-4)] p read_failure_panics [of stream e env fs]
  show ?thesis by blast
qed

text \<open>Worker 0 of four takes a connection whose read fails.\<close>

theorem connection_failure_ends_worker_witness:
  "incoming failing_stream = Inl IoError
   \<and> handle_http_request example_env example_fs failing_stream = ([], Inl (UnwrapErr IoError))
   \<and> threads four_failing_connections ! 0 = Running
   \<and> worker_step 0 four_failing_connections
       = Some (four_failing_connections
           \<lparr>queue := replicate 3 (NewTask (connection_job example_env example_fs failing_stream)),
            threads := [Panicked (UnwrapErr IoError), Running, Running, Running]\<rparr>)"
  using connection_failure_ends_worker [of failing_stream IoError 0 four_failing_connections
      example_env example_fs
      "replicate 3 (NewTask (connection_job example_env example_fs failing_stream))"]
  by (auto simp: failing_stream_def four_failing_connections_def numeral_eq_Suc)

text \<open>
  The claim as stated fails: a failed read ends the worker that handles the connection,
  and after four such connections no worker is left, the receiver is gone, and the
  next \<open>execute\<close> of the accepting thread panics in its \<open>unwrap\<close>.
\<close>

theorem read_failure_crashes_worker_counterexample:
  "handle_http_request example_env example_fs failing_stream = ([], Inl (UnwrapErr IoError))
   \<and> map_option threads (worker_step 0 four_failing_connections)
       = Some [Panicked (UnwrapErr IoError), Running, Running, Running]
   \<and> Option.bind (Option.bind (Option.bind (Option.bind (Option.bind
        (worker_step 0 four_failing_connections) (worker_step 1)) (worker_step 2))
        (worker_step 3)) main_step) (\<lambda>s. Some (queue s = [], threads s, main s, world s))
       = Some (True,
               [Panicked (UnwrapErr IoError), Panicked (UnwrapErr IoError),
                Panicked (UnwrapErr IoError), Panicked (UnwrapErr IoError)],
               Inl (UnwrapErr SendError), [])"
  by (simp add: read_failure_panics failing_stream_def four_failing_connections_def
      worker_step_def main_step_def connection_job_def ThreadPool_execute_def numeral_eq_Suc)

end
